theory Spec2Isabelle
  imports Main "HOL-Library.Word"
begin

section \<open>Terraform value types and diagnostics\<close>

text \<open>
  The provider is written against the Terraform plugin framework. Its attribute values
  are three-valued: null, unknown, or a known value. \<open>ValueString\<close> and
  \<open>ValueInt64\<close> return the zero value for null and unknown, as the framework's
  accessors do. Go strings are byte strings (\<open>string\<close>), \<open>int64\<close>, \<open>uint64\<close> are
  64-bit words and \<open>uint32\<close> is a 32-bit word; a Go conversion between integer types of
  the kinds used here keeps the low bits (\<open>ucast\<close>). A \<open>float64\<close> is only passed
  through, so it is carried as its 64-bit pattern.
\<close>

type_synonym int64 = "64 word"
type_synonym uint64 = "64 word"
type_synonym uint32 = "32 word"
type_synonym float64 = "64 word"

datatype tf_String = StringNull | StringUnknown | StringValue string

fun String_IsNull :: "tf_String \<Rightarrow> bool" where
  "String_IsNull StringNull = True"
| "String_IsNull StringUnknown = False"
| "String_IsNull (StringValue s) = False"

fun ValueString :: "tf_String \<Rightarrow> string" where
  "ValueString StringNull = []"
| "ValueString StringUnknown = []"
| "ValueString (StringValue s) = s"

datatype tf_Int64 = Int64Null | Int64Unknown | Int64Value int64

fun ValueInt64 :: "tf_Int64 \<Rightarrow> int64" where
  "ValueInt64 Int64Null = 0"
| "ValueInt64 Int64Unknown = 0"
| "ValueInt64 (Int64Value n) = n"

datatype tf_Float64 = Float64Null | Float64Unknown | Float64Value float64

text \<open>A list attribute with element type string.\<close>

datatype tf_List = ListNull | ListUnknown | ListValue "tf_String list"

fun List_IsNull :: "tf_List \<Rightarrow> bool" where
  "List_IsNull ListNull = True"
| "List_IsNull ListUnknown = False"
| "List_IsNull (ListValue xs) = False"

text \<open>
  A diagnostic has a severity, a summary and a detail. A detail built with
  \<open>fmt.Sprintf\<close> and the verb \<open>%q\<close> is kept as the unevaluated call (format and
  arguments); every other detail in the provider is a concatenation of strings.
\<close>

datatype detail = Detail string | Sprintf string "string list"

datatype diagnostic = ErrorDiagnostic string detail | WarningDiagnostic string detail

fun is_error :: "diagnostic \<Rightarrow> bool" where
  "is_error (ErrorDiagnostic s d) = True"
| "is_error (WarningDiagnostic s d) = False"

fun summary :: "diagnostic \<Rightarrow> string" where
  "summary (ErrorDiagnostic s d) = s"
| "summary (WarningDiagnostic s d) = s"

definition HasError :: "diagnostic list \<Rightarrow> bool" where
  "HasError ds = list_ex is_error ds"

text \<open>
  \<open>req.Plan.Get\<close>, \<open>req.State.Get\<close> and \<open>req.Config.Get\<close> decode the framework's
  data into the typed model and return diagnostics: the decoded model and the
  diagnostics of the decoding are the operation's input.
\<close>

record 'm tfsdk_Data =
  Get_diags :: "diagnostic list"
  Get_model :: 'm

text \<open>
  The response of a resource or data-source operation: the diagnostics and the state
  (\<open>None\<close> is the null state of a resource that does not exist yet). The Go methods
  mutate \<open>resp\<close> in place; the model takes the response and returns the new one.
  \<open>State_Set\<close> stores a typed model, which cannot fail for a model whose fields are all
  framework value types, so it returns no diagnostics.
\<close>

record 'm response =
  Diagnostics :: "diagnostic list"
  State :: "'m option"

definition Append :: "'m response \<Rightarrow> diagnostic list \<Rightarrow> 'm response" where
  "Append resp ds = resp\<lparr>Diagnostics := Diagnostics resp @ ds\<rparr>"

definition AddError :: "'m response \<Rightarrow> string \<Rightarrow> detail \<Rightarrow> 'm response" where
  "AddError resp s d = resp\<lparr>Diagnostics := Diagnostics resp @ [ErrorDiagnostic s d]\<rparr>"

definition State_Set :: "'m response \<Rightarrow> 'm \<Rightarrow> 'm response" where
  "State_Set resp m = resp\<lparr>State := Some m\<rparr>"

section \<open>The API client\<close>

text \<open>
  The HTTP client library is an external collaborator. The structs below hold the
  fields this provider writes or reads. Named string types of the library
  (\<open>DeploymentType\<close>, \<open>AccessMode\<close>, \<open>StorageUnit\<close>, ...) are strings, and their
  \<open>String\<close> method returns the string. A \<open>time.Time\<close> is only ever formatted with
  \<open>time.RFC3339\<close>, so it is carried as that rendering. A Go \<open>error\<close> is its message.
\<close>

datatype Time = Time string

fun Format_RFC3339 :: "Time \<Rightarrow> string" where
  "Format_RFC3339 (Time s) = s"

record DeploymentCreationRequest =
  cr_Name :: string
  cr_Type :: string
  cr_Provider :: string
  cr_Region :: string
  cr_Tier :: uint32
  cr_StorageSize :: uint64
  cr_StorageSizeUnit :: string
  cr_Retention :: uint32
  cr_RetentionUnit :: string
  cr_Deduplication :: uint32
  cr_DeduplicationUnit :: string
  cr_MaintenanceWindow :: string

record DeploymentFlags =
  fl_SingleFlags :: "string list"
  fl_SelectFlags :: "string list"
  fl_StorageFlags :: "string list"
  fl_InsertFlags :: "string list"

record DeploymentUpdateRequest =
  ur_Name :: string
  ur_Tier :: uint32
  ur_StorageSize :: uint64
  ur_StorageSizeUnit :: string
  ur_Retention :: uint32
  ur_RetentionUnit :: string
  ur_Deduplication :: uint32
  ur_DeduplicationUnit :: string
  ur_MaintenanceWindow :: string
  ur_Flags :: DeploymentFlags

record DeploymentPrice =
  pr_ComputeCost :: float64
  pr_StorageCost :: float64
  pr_TotalCost :: float64

text \<open>The deployment as the API returns it from create, update and get-details.\<close>

record Deployment =
  dp_ID :: string
  dp_Name :: string
  dp_Type :: string
  dp_CloudProvider :: string
  dp_Region :: string
  dp_Tier :: uint32
  dp_RetentionValue :: uint32
  dp_RetentionUnit :: string
  dp_DeduplicationValue :: uint32
  dp_DeduplicationUnit :: string
  dp_MaintenanceWindow :: string
  dp_Version :: string
  dp_Status :: string
  dp_CreatedAt :: Time
  dp_AccessEndpoint :: string
  dp_StorageSizeGb :: uint64
  dp_Price :: DeploymentPrice

record DeploymentSummary =
  ds_ID :: string
  ds_Name :: string
  ds_Type :: string
  ds_Tier :: uint32
  ds_Version :: string
  ds_CloudProvider :: string
  ds_Region :: string
  ds_Status :: string
  ds_CreatedAt :: Time

record AccessTokenCreateRequest =
  ar_Type :: string
  ar_Description :: string
  ar_TenantID :: string

record AccessToken =
  at_ID :: string
  at_Type :: string
  at_Description :: string
  at_TenantID :: string
  at_Secret :: string
  at_CreatedBy :: string
  at_CreatedAt :: Time
  at_LastUsedAt :: "Time option"

record CloudProvider =
  cp_ID :: string
  cp_URL :: string

record Region =
  rg_Name :: string
  rg_CloudProvider :: string

record Tier =
  tr_ID :: uint32
  tr_Type :: string
  tr_CloudProvider :: string
  tr_Name :: string
  tr_ComputeCostPerHour :: float64
  tr_IngestionRate :: uint64
  tr_ActiveTimeSeries :: uint64
  tr_NewSeriesOver24h :: uint64
  tr_DatapointsReadRate :: uint64
  tr_SeriesReadPerQuery :: uint64
  tr_AccessTokenConcurrentRequests :: uint64

text \<open>
  One constructor per client method the provider calls, with the arguments of the call:
  an operation returns the list of the calls it made, in order.
\<close>

datatype api_call =
    CallCreateDeployment DeploymentCreationRequest
  | CallGetDeploymentDetails string
  | CallUpdateDeployment string DeploymentUpdateRequest
  | CallDeleteDeployment string
  | CallListDeployments
  | CallCreateDeploymentAccessToken string AccessTokenCreateRequest
  | CallRevealDeploymentAccessToken string string
  | CallDeleteDeploymentAccessToken string string
  | CallCreateDeploymentRuleFileContent string string string
  | CallGetDeploymentRuleFileContent string string
  | CallUpdateDeploymentRuleFileContent string string string
  | CallDeleteDeploymentRuleFile string string
  | CallListCloudProviders
  | CallListRegions
  | CallListTiers

fun is_List_call :: "api_call \<Rightarrow> bool" where
  "is_List_call CallListDeployments = True"
| "is_List_call CallListCloudProviders = True"
| "is_List_call CallListRegions = True"
| "is_List_call CallListTiers = True"
| "is_List_call c = False"

text \<open>
  The remote API is the client's behaviour: what each method returns for its arguments,
  \<open>Inl\<close> the error and \<open>Inr\<close> the value. A method without a result value returns
  \<open>None\<close> for success and \<open>Some\<close> of the error.
\<close>

record VMCloudAPIClient =
  CreateDeployment :: "DeploymentCreationRequest \<Rightarrow> string + Deployment"
  GetDeploymentDetails :: "string \<Rightarrow> string + Deployment"
  UpdateDeployment :: "string \<Rightarrow> DeploymentUpdateRequest \<Rightarrow> string + Deployment"
  DeleteDeployment :: "string \<Rightarrow> string option"
  ListDeployments :: "string + DeploymentSummary list"
  CreateDeploymentAccessToken :: "string \<Rightarrow> AccessTokenCreateRequest \<Rightarrow> string + AccessToken"
  RevealDeploymentAccessToken :: "string \<Rightarrow> string \<Rightarrow> string + AccessToken"
  DeleteDeploymentAccessToken :: "string \<Rightarrow> string \<Rightarrow> string option"
  CreateDeploymentRuleFileContent :: "string \<Rightarrow> string \<Rightarrow> string \<Rightarrow> string option"
  GetDeploymentRuleFileContent :: "string \<Rightarrow> string \<Rightarrow> string + string"
  UpdateDeploymentRuleFileContent :: "string \<Rightarrow> string \<Rightarrow> string \<Rightarrow> string option"
  DeleteDeploymentRuleFile :: "string \<Rightarrow> string \<Rightarrow> string option"
  ListCloudProviders :: "string + CloudProvider list"
  ListRegions :: "string + Region list"
  ListTiers :: "string + Tier list"

section \<open>The access-token resource\<close>

record accessTokenResourceModel =
  tk_ID :: tf_String
  tk_DeploymentID :: tf_String
  tk_Type :: tf_String
  tk_Description :: tf_String
  tk_TenantID :: tf_String
  tk_Secret :: tf_String
  tk_CreatedBy :: tf_String
  tk_CreatedAt :: tf_String
  tk_LastUsedAt :: tf_String

definition accessTokenResource_Create ::
  "VMCloudAPIClient \<Rightarrow> accessTokenResourceModel tfsdk_Data \<Rightarrow>
   accessTokenResourceModel response \<Rightarrow> api_call list \<times> accessTokenResourceModel response" where
  "accessTokenResource_Create client req_Plan resp0 =
    (let plan = Get_model req_Plan;
         resp = Append resp0 (Get_diags req_Plan)
     in if HasError (Diagnostics resp) then ([], resp)
        else
          let createRequest = \<lparr>ar_Type = ValueString (tk_Type plan),
                                 ar_Description = ValueString (tk_Description plan),
                                 ar_TenantID = []\<rparr>;
              createRequest = (if \<not> String_IsNull (tk_TenantID plan)
                               then createRequest\<lparr>ar_TenantID := ValueString (tk_TenantID plan)\<rparr>
                               else createRequest);
              call = CallCreateDeploymentAccessToken (ValueString (tk_DeploymentID plan)) createRequest
          in case CreateDeploymentAccessToken client (ValueString (tk_DeploymentID plan)) createRequest of
               Inl err \<Rightarrow>
                 ([call], AddError resp ''Error creating access token''
                            (Detail (''Could not create access token, unexpected error: '' @ err)))
             | Inr token \<Rightarrow>
                 let plan = plan\<lparr>tk_ID := StringValue (at_ID token)\<rparr>;
                     plan = plan\<lparr>tk_Secret := StringValue (at_Secret token)\<rparr>;
                     plan = plan\<lparr>tk_CreatedBy := StringValue (at_CreatedBy token)\<rparr>;
                     plan = plan\<lparr>tk_CreatedAt := StringValue (Format_RFC3339 (at_CreatedAt token))\<rparr>;
                     plan = (case at_LastUsedAt token of
                               Some t \<Rightarrow> plan\<lparr>tk_LastUsedAt := StringValue (Format_RFC3339 t)\<rparr>
                             | None \<Rightarrow> plan)
                 in ([call], State_Set resp plan))"

definition accessTokenResource_Read ::
  "VMCloudAPIClient \<Rightarrow> accessTokenResourceModel tfsdk_Data \<Rightarrow>
   accessTokenResourceModel response \<Rightarrow> api_call list \<times> accessTokenResourceModel response" where
  "accessTokenResource_Read client req_State resp0 =
    (let state = Get_model req_State;
         resp = Append resp0 (Get_diags req_State)
     in if HasError (Diagnostics resp) then ([], resp)
        else
          let call = CallRevealDeploymentAccessToken (ValueString (tk_DeploymentID state))
                       (ValueString (tk_ID state))
          in case RevealDeploymentAccessToken client (ValueString (tk_DeploymentID state))
                    (ValueString (tk_ID state)) of
               Inl err \<Rightarrow>
                 ([call], AddError resp ''Error Reading Access Token''
                            (Detail (''Could not read access token ID '' @ ValueString (tk_ID state)
                                     @ '': '' @ err)))
             | Inr token \<Rightarrow>
                 let state = state\<lparr>tk_Type := StringValue (at_Type token)\<rparr>;
                     state = state\<lparr>tk_Description := StringValue (at_Description token)\<rparr>;
                     state = state\<lparr>tk_Secret := StringValue (at_Secret token)\<rparr>;
                     state = state\<lparr>tk_CreatedBy := StringValue (at_CreatedBy token)\<rparr>;
                     state = state\<lparr>tk_CreatedAt := StringValue (Format_RFC3339 (at_CreatedAt token))\<rparr>;
                     state = (case at_LastUsedAt token of
                                Some t \<Rightarrow> state\<lparr>tk_LastUsedAt := StringValue (Format_RFC3339 t)\<rparr>
                              | None \<Rightarrow> state\<lparr>tk_LastUsedAt := StringNull\<rparr>);
                     state = (if at_TenantID token \<noteq> []
                              then state\<lparr>tk_TenantID := StringValue (at_TenantID token)\<rparr>
                              else state)
                 in ([call], State_Set resp state))"

text \<open>\<open>Update\<close> reads neither the plan nor the client.\<close>

definition accessTokenResource_Update ::
  "VMCloudAPIClient \<Rightarrow> accessTokenResourceModel tfsdk_Data \<Rightarrow>
   accessTokenResourceModel response \<Rightarrow> api_call list \<times> accessTokenResourceModel response" where
  "accessTokenResource_Update client req_Plan resp0 =
    ([], AddError resp0 ''Update not supported''
           (Detail ''Access tokens cannot be updated. Any changes require replacement.''))"

definition accessTokenResource_Delete ::
  "VMCloudAPIClient \<Rightarrow> accessTokenResourceModel tfsdk_Data \<Rightarrow>
   accessTokenResourceModel response \<Rightarrow> api_call list \<times> accessTokenResourceModel response" where
  "accessTokenResource_Delete client req_State resp0 =
    (let state = Get_model req_State;
         resp = Append resp0 (Get_diags req_State)
     in if HasError (Diagnostics resp) then ([], resp)
        else
          let call = CallDeleteDeploymentAccessToken (ValueString (tk_DeploymentID state))
                       (ValueString (tk_ID state))
          in case DeleteDeploymentAccessToken client (ValueString (tk_DeploymentID state))
                    (ValueString (tk_ID state)) of
               Some err \<Rightarrow>
                 ([call], AddError resp ''Error deleting access token''
                            (Detail (''Could not delete access token, unexpected error: '' @ err)))
             | None \<Rightarrow> ([call], resp))"

text \<open>
  \<open>strings.Split\<close> with a one-byte separator: the substrings between the separators,
  so a string with \<open>n\<close> separators has \<open>n + 1\<close> parts and the empty string has one.
\<close>

fun Split :: "string \<Rightarrow> char \<Rightarrow> string list" where
  "Split [] sep = [[]]"
| "Split (c # cs) sep =
     (if c = sep then [] # Split cs sep
      else (case Split cs sep of
              p # ps \<Rightarrow> (c # p) # ps
            | [] \<Rightarrow> [[c]]))"

text \<open>
  \<open>resp.State.SetAttribute\<close> writes one attribute; on the null state of an import it
  first makes the object whose attributes are all null.
\<close>

definition accessToken_null :: accessTokenResourceModel where
  "accessToken_null =
     \<lparr>tk_ID = StringNull, tk_DeploymentID = StringNull, tk_Type = StringNull,
      tk_Description = StringNull, tk_TenantID = StringNull, tk_Secret = StringNull,
      tk_CreatedBy = StringNull, tk_CreatedAt = StringNull, tk_LastUsedAt = StringNull\<rparr>"

definition accessToken_SetAttribute ::
  "accessTokenResourceModel response \<Rightarrow>
   (accessTokenResourceModel \<Rightarrow> accessTokenResourceModel) \<Rightarrow> accessTokenResourceModel response" where
  "accessToken_SetAttribute resp upd =
     resp\<lparr>State := Some (upd (case State resp of None \<Rightarrow> accessToken_null | Some m \<Rightarrow> m))\<rparr>"

definition accessTokenResource_ImportState ::
  "string \<Rightarrow> accessTokenResourceModel response \<Rightarrow> api_call list \<times> accessTokenResourceModel response" where
  "accessTokenResource_ImportState req_ID resp0 =
    (let parts = Split req_ID (CHR ''/'')
     in if length parts \<noteq> 2 \<or> parts ! 0 = [] \<or> parts ! 1 = []
        then ([], AddError resp0 ''Invalid Import ID''
                    (Sprintf ''Expected import identifier with format: deployment_id/token_id. Got: %q''
                       [req_ID]))
        else
          let resp = accessToken_SetAttribute resp0 (\<lambda>m. m\<lparr>tk_DeploymentID := StringValue (parts ! 0)\<rparr>);
              resp = accessToken_SetAttribute resp (\<lambda>m. m\<lparr>tk_ID := StringValue (parts ! 1)\<rparr>)
          in ([], resp))"

section \<open>The rule-file resource\<close>

record ruleFileResourceModel =
  rf_ID :: tf_String
  rf_DeploymentID :: tf_String
  rf_FileName :: tf_String
  rf_Content :: tf_String

definition ruleFileResource_Create ::
  "VMCloudAPIClient \<Rightarrow> ruleFileResourceModel tfsdk_Data \<Rightarrow>
   ruleFileResourceModel response \<Rightarrow> api_call list \<times> ruleFileResourceModel response" where
  "ruleFileResource_Create client req_Plan resp0 =
    (let plan = Get_model req_Plan;
         resp = Append resp0 (Get_diags req_Plan)
     in if HasError (Diagnostics resp) then ([], resp)
        else
          let call = CallCreateDeploymentRuleFileContent (ValueString (rf_DeploymentID plan))
                       (ValueString (rf_FileName plan)) (ValueString (rf_Content plan))
          in case CreateDeploymentRuleFileContent client (ValueString (rf_DeploymentID plan))
                    (ValueString (rf_FileName plan)) (ValueString (rf_Content plan)) of
               Some err \<Rightarrow>
                 ([call], AddError resp ''Error creating rule file''
                            (Detail (''Could not create rule file, unexpected error: '' @ err)))
             | None \<Rightarrow>
                 let plan = plan\<lparr>rf_ID := StringValue (ValueString (rf_DeploymentID plan) @ ''/''
                                                         @ ValueString (rf_FileName plan))\<rparr>
                 in ([call], State_Set resp plan))"

definition ruleFileResource_Read ::
  "VMCloudAPIClient \<Rightarrow> ruleFileResourceModel tfsdk_Data \<Rightarrow>
   ruleFileResourceModel response \<Rightarrow> api_call list \<times> ruleFileResourceModel response" where
  "ruleFileResource_Read client req_State resp0 =
    (let state = Get_model req_State;
         resp = Append resp0 (Get_diags req_State)
     in if HasError (Diagnostics resp) then ([], resp)
        else
          let call = CallGetDeploymentRuleFileContent (ValueString (rf_DeploymentID state))
                       (ValueString (rf_FileName state))
          in case GetDeploymentRuleFileContent client (ValueString (rf_DeploymentID state))
                    (ValueString (rf_FileName state)) of
               Inl err \<Rightarrow>
                 ([call], AddError resp ''Error Reading Rule File''
                            (Detail (''Could not read rule file '' @ ValueString (rf_FileName state)
                                     @ '': '' @ err)))
             | Inr content \<Rightarrow>
                 let state = state\<lparr>rf_Content := StringValue content\<rparr>
                 in ([call], State_Set resp state))"

definition ruleFileResource_Update ::
  "VMCloudAPIClient \<Rightarrow> ruleFileResourceModel tfsdk_Data \<Rightarrow>
   ruleFileResourceModel response \<Rightarrow> api_call list \<times> ruleFileResourceModel response" where
  "ruleFileResource_Update client req_Plan resp0 =
    (let plan = Get_model req_Plan;
         resp = Append resp0 (Get_diags req_Plan)
     in if HasError (Diagnostics resp) then ([], resp)
        else
          let call = CallUpdateDeploymentRuleFileContent (ValueString (rf_DeploymentID plan))
                       (ValueString (rf_FileName plan)) (ValueString (rf_Content plan))
          in case UpdateDeploymentRuleFileContent client (ValueString (rf_DeploymentID plan))
                    (ValueString (rf_FileName plan)) (ValueString (rf_Content plan)) of
               Some err \<Rightarrow>
                 ([call], AddError resp ''Error updating rule file''
                            (Detail (''Could not update rule file, unexpected error: '' @ err)))
             | None \<Rightarrow> ([call], State_Set resp plan))"

definition ruleFileResource_Delete ::
  "VMCloudAPIClient \<Rightarrow> ruleFileResourceModel tfsdk_Data \<Rightarrow>
   ruleFileResourceModel response \<Rightarrow> api_call list \<times> ruleFileResourceModel response" where
  "ruleFileResource_Delete client req_State resp0 =
    (let state = Get_model req_State;
         resp = Append resp0 (Get_diags req_State)
     in if HasError (Diagnostics resp) then ([], resp)
        else
          let call = CallDeleteDeploymentRuleFile (ValueString (rf_DeploymentID state))
                       (ValueString (rf_FileName state))
          in case DeleteDeploymentRuleFile client (ValueString (rf_DeploymentID state))
                    (ValueString (rf_FileName state)) of
               Some err \<Rightarrow>
                 ([call], AddError resp ''Error deleting rule file''
                            (Detail (''Could not delete rule file, unexpected error: '' @ err)))
             | None \<Rightarrow> ([call], resp))"

definition ruleFile_null :: ruleFileResourceModel where
  "ruleFile_null =
     \<lparr>rf_ID = StringNull, rf_DeploymentID = StringNull, rf_FileName = StringNull,
      rf_Content = StringNull\<rparr>"

definition ruleFile_SetAttribute ::
  "ruleFileResourceModel response \<Rightarrow>
   (ruleFileResourceModel \<Rightarrow> ruleFileResourceModel) \<Rightarrow> ruleFileResourceModel response" where
  "ruleFile_SetAttribute resp upd =
     resp\<lparr>State := Some (upd (case State resp of None \<Rightarrow> ruleFile_null | Some m \<Rightarrow> m))\<rparr>"

definition ruleFileResource_ImportState ::
  "string \<Rightarrow> ruleFileResourceModel response \<Rightarrow> api_call list \<times> ruleFileResourceModel response" where
  "ruleFileResource_ImportState req_ID resp0 =
    (let parts = Split req_ID (CHR ''/'')
     in if length parts \<noteq> 2 \<or> parts ! 0 = [] \<or> parts ! 1 = []
        then ([], AddError resp0 ''Invalid Import ID''
                    (Sprintf ''Expected import identifier with format: deployment_id/file_name. Got: %q''
                       [req_ID]))
        else
          let resp = ruleFile_SetAttribute resp0 (\<lambda>m. m\<lparr>rf_DeploymentID := StringValue (parts ! 0)\<rparr>);
              resp = ruleFile_SetAttribute resp (\<lambda>m. m\<lparr>rf_FileName := StringValue (parts ! 1)\<rparr>);
              resp = ruleFile_SetAttribute resp (\<lambda>m. m\<lparr>rf_ID := StringValue req_ID\<rparr>)
          in ([], resp))"

section \<open>The deployment resource\<close>

record deploymentResourceModel =
  dr_ID :: tf_String
  dr_Name :: tf_String
  dr_Type :: tf_String
  dr_CloudProvider :: tf_String
  dr_Region :: tf_String
  dr_Tier :: tf_Int64
  dr_StorageSize :: tf_Int64
  dr_StorageSizeUnit :: tf_String
  dr_Retention :: tf_Int64
  dr_RetentionUnit :: tf_String
  dr_Deduplication :: tf_Int64
  dr_DeduplicationUnit :: tf_String
  dr_MaintenanceWindow :: tf_String
  dr_SingleFlags :: tf_List
  dr_SelectFlags :: tf_List
  dr_StorageFlags :: tf_List
  dr_InsertFlags :: tf_List
  dr_Version :: tf_String
  dr_Status :: tf_String
  dr_CreatedAt :: tf_String
  dr_AccessEndpoint :: tf_String

text \<open>The creation request as \<open>Create\<close> builds it from the plan.\<close>

definition createRequest_of :: "deploymentResourceModel \<Rightarrow> DeploymentCreationRequest" where
  "createRequest_of plan =
     \<lparr>cr_Name = ValueString (dr_Name plan),
      cr_Type = ValueString (dr_Type plan),
      cr_Provider = ValueString (dr_CloudProvider plan),
      cr_Region = ValueString (dr_Region plan),
      cr_Tier = ucast (ValueInt64 (dr_Tier plan)),
      cr_StorageSize = ValueInt64 (dr_StorageSize plan),
      cr_StorageSizeUnit = ValueString (dr_StorageSizeUnit plan),
      cr_Retention = ucast (ValueInt64 (dr_Retention plan)),
      cr_RetentionUnit = ValueString (dr_RetentionUnit plan),
      cr_Deduplication = ucast (ValueInt64 (dr_Deduplication plan)),
      cr_DeduplicationUnit = ValueString (dr_DeduplicationUnit plan),
      cr_MaintenanceWindow = ValueString (dr_MaintenanceWindow plan)\<rparr>"

definition deploymentResource_Create ::
  "VMCloudAPIClient \<Rightarrow> deploymentResourceModel tfsdk_Data \<Rightarrow>
   deploymentResourceModel response \<Rightarrow> api_call list \<times> deploymentResourceModel response" where
  "deploymentResource_Create client req_Plan resp0 =
    (let plan = Get_model req_Plan;
         resp = Append resp0 (Get_diags req_Plan)
     in if HasError (Diagnostics resp) then ([], resp)
        else
          let createRequest = createRequest_of plan
          in case CreateDeployment client createRequest of
               Inl err \<Rightarrow>
                 ([CallCreateDeployment createRequest],
                  AddError resp ''Error creating deployment''
                    (Detail (''Could not create deployment, unexpected error: '' @ err)))
             | Inr deployment \<Rightarrow>
                 let plan = plan\<lparr>dr_ID := StringValue (dp_ID deployment)\<rparr>;
                     plan = plan\<lparr>dr_Version := StringValue (dp_Version deployment)\<rparr>;
                     plan = plan\<lparr>dr_Status := StringValue (dp_Status deployment)\<rparr>;
                     plan = plan\<lparr>dr_CreatedAt := StringValue (Format_RFC3339 (dp_CreatedAt deployment))\<rparr>;
                     plan = plan\<lparr>dr_AccessEndpoint := StringValue (dp_AccessEndpoint deployment)\<rparr>
                 in ([CallCreateDeployment createRequest], State_Set resp plan))"

text \<open>
  The storage size of \<open>Read\<close>: the switch on the unit has the cases \<open>GB\<close> and \<open>TB\<close> and
  no default. Division of a \<open>uint64\<close> is the word's division.
\<close>

definition storage_size_of :: "deploymentResourceModel \<Rightarrow> uint64 \<Rightarrow> tf_Int64" where
  "storage_size_of state gb =
     (if \<not> String_IsNull (dr_StorageSizeUnit state)
      then (if ValueString (dr_StorageSizeUnit state) = ''GB'' then Int64Value gb
            else if ValueString (dr_StorageSizeUnit state) = ''TB'' then Int64Value (gb div 1024)
            else dr_StorageSize state)
      else dr_StorageSize state)"

definition deploymentResource_Read ::
  "VMCloudAPIClient \<Rightarrow> deploymentResourceModel tfsdk_Data \<Rightarrow>
   deploymentResourceModel response \<Rightarrow> api_call list \<times> deploymentResourceModel response" where
  "deploymentResource_Read client req_State resp0 =
    (let state = Get_model req_State;
         resp = Append resp0 (Get_diags req_State)
     in if HasError (Diagnostics resp) then ([], resp)
        else
          let call = CallGetDeploymentDetails (ValueString (dr_ID state))
          in
          case GetDeploymentDetails client (ValueString (dr_ID state)) of
            Inl err \<Rightarrow>
              ([call],
               AddError resp ''Error Reading Deployment''
                 (Detail (''Could not read deployment ID '' @ ValueString (dr_ID state) @ '': '' @ err)))
          | Inr deployment \<Rightarrow>
              let state = state\<lparr>dr_Name := StringValue (dp_Name deployment)\<rparr>;
                  state = state\<lparr>dr_Type := StringValue (dp_Type deployment)\<rparr>;
                  state = state\<lparr>dr_CloudProvider := StringValue (dp_CloudProvider deployment)\<rparr>;
                  state = state\<lparr>dr_Region := StringValue (dp_Region deployment)\<rparr>;
                  state = state\<lparr>dr_Tier := Int64Value (ucast (dp_Tier deployment))\<rparr>;
                  state = state\<lparr>dr_Retention := Int64Value (ucast (dp_RetentionValue deployment))\<rparr>;
                  state = state\<lparr>dr_RetentionUnit := StringValue (dp_RetentionUnit deployment)\<rparr>;
                  state = state\<lparr>dr_Deduplication := Int64Value (ucast (dp_DeduplicationValue deployment))\<rparr>;
                  state = state\<lparr>dr_DeduplicationUnit := StringValue (dp_DeduplicationUnit deployment)\<rparr>;
                  state = state\<lparr>dr_MaintenanceWindow := StringValue (dp_MaintenanceWindow deployment)\<rparr>;
                  state = state\<lparr>dr_Version := StringValue (dp_Version deployment)\<rparr>;
                  state = state\<lparr>dr_Status := StringValue (dp_Status deployment)\<rparr>;
                  state = state\<lparr>dr_CreatedAt := StringValue (Format_RFC3339 (dp_CreatedAt deployment))\<rparr>;
                  state = state\<lparr>dr_AccessEndpoint := StringValue (dp_AccessEndpoint deployment)\<rparr>;
                  state = state\<lparr>dr_StorageSize := storage_size_of state (dp_StorageSizeGb deployment)\<rparr>
              in ([call], State_Set resp state))"

text \<open>
  \<open>ElementsAs\<close> converts a list of strings into a Go \<open>[]string\<close>. With
  \<open>allowUnhandled = false\<close> it fails on an unknown list and on a null or unknown
  element, and then leaves the target as it was. The framework's message is not part
  of this repository. \<open>Update\<close> never calls it on a null list.
\<close>

fun String_IsKnown :: "tf_String \<Rightarrow> bool" where
  "String_IsKnown (StringValue s) = True"
| "String_IsKnown v = False"

definition conversion_error :: diagnostic where
  "conversion_error = ErrorDiagnostic ''Value Conversion Error'' (Detail [])"

fun ElementsAs :: "tf_List \<Rightarrow> string list \<Rightarrow> diagnostic list \<times> string list" where
  "ElementsAs (ListValue xs) target =
     (if list_all String_IsKnown xs then ([], map ValueString xs)
      else ([conversion_error], target))"
| "ElementsAs ListUnknown target = ([conversion_error], target)"
| "ElementsAs ListNull target = ([], [])"

text \<open>One step of "Prepare flags": the guarded conversion of one list.\<close>

definition flag_step :: "tf_List \<Rightarrow> string list \<Rightarrow> diagnostic list \<times> string list" where
  "flag_step l target = (if \<not> List_IsNull l then ElementsAs l target else ([], target))"

definition updateRequest_of :: "deploymentResourceModel \<Rightarrow> DeploymentFlags \<Rightarrow> DeploymentUpdateRequest" where
  "updateRequest_of plan flags =
     \<lparr>ur_Name = ValueString (dr_Name plan),
      ur_Tier = ucast (ValueInt64 (dr_Tier plan)),
      ur_StorageSize = ValueInt64 (dr_StorageSize plan),
      ur_StorageSizeUnit = ValueString (dr_StorageSizeUnit plan),
      ur_Retention = ucast (ValueInt64 (dr_Retention plan)),
      ur_RetentionUnit = ValueString (dr_RetentionUnit plan),
      ur_Deduplication = ucast (ValueInt64 (dr_Deduplication plan)),
      ur_DeduplicationUnit = ValueString (dr_DeduplicationUnit plan),
      ur_MaintenanceWindow = ValueString (dr_MaintenanceWindow plan),
      ur_Flags = flags\<rparr>"

definition deploymentResource_Update ::
  "VMCloudAPIClient \<Rightarrow> deploymentResourceModel tfsdk_Data \<Rightarrow>
   deploymentResourceModel response \<Rightarrow> api_call list \<times> deploymentResourceModel response" where
  "deploymentResource_Update client req_Plan resp0 =
    (let plan = Get_model req_Plan;
         resp = Append resp0 (Get_diags req_Plan)
     in if HasError (Diagnostics resp) then ([], resp)
        else
          let (d1, single) = flag_step (dr_SingleFlags plan) [];
              resp = Append resp d1;
              (d2, select) = flag_step (dr_SelectFlags plan) [];
              resp = Append resp d2;
              (d3, storage) = flag_step (dr_StorageFlags plan) [];
              resp = Append resp d3;
              (d4, insert) = flag_step (dr_InsertFlags plan) [];
              resp = Append resp d4;
              flags = \<lparr>fl_SingleFlags = single, fl_SelectFlags = select,
                       fl_StorageFlags = storage, fl_InsertFlags = insert\<rparr>
          in if HasError (Diagnostics resp) then ([], resp)
             else
               let updateRequest = updateRequest_of plan flags;
                   call = CallUpdateDeployment (ValueString (dr_ID plan)) updateRequest
               in case UpdateDeployment client (ValueString (dr_ID plan)) updateRequest of
                    Inl err \<Rightarrow>
                      ([call], AddError resp ''Error updating deployment''
                                 (Detail (''Could not update deployment, unexpected error: '' @ err)))
                  | Inr deployment \<Rightarrow>
                      let plan = plan\<lparr>dr_Version := StringValue (dp_Version deployment)\<rparr>;
                          plan = plan\<lparr>dr_Status := StringValue (dp_Status deployment)\<rparr>;
                          plan = plan\<lparr>dr_AccessEndpoint := StringValue (dp_AccessEndpoint deployment)\<rparr>
                      in ([call], State_Set resp plan))"

definition deploymentResource_Delete ::
  "VMCloudAPIClient \<Rightarrow> deploymentResourceModel tfsdk_Data \<Rightarrow>
   deploymentResourceModel response \<Rightarrow> api_call list \<times> deploymentResourceModel response" where
  "deploymentResource_Delete client req_State resp0 =
    (let state = Get_model req_State;
         resp = Append resp0 (Get_diags req_State)
     in if HasError (Diagnostics resp) then ([], resp)
        else
          case DeleteDeployment client (ValueString (dr_ID state)) of
            Some err \<Rightarrow>
              ([CallDeleteDeployment (ValueString (dr_ID state))],
               AddError resp ''Error deleting deployment''
                 (Detail (''Could not delete deployment, unexpected error: '' @ err)))
          | None \<Rightarrow> ([CallDeleteDeployment (ValueString (dr_ID state))], resp))"

section \<open>The data sources\<close>

text \<open>
  A Go slice is \<open>nil\<close> (\<open>None\<close>) or holds elements; Go's \<open>append\<close> to \<open>nil\<close> makes a
  slice. The catalog data sources start from the zero model, whose slice is \<open>nil\<close>,
  and append one element per entry of the API's answer; the deployments data source
  starts from an empty slice.
\<close>

type_synonym 'a slice = "'a list option"

fun append_slice :: "'a slice \<Rightarrow> 'a \<Rightarrow> 'a slice" where
  "append_slice None x = Some [x]"
| "append_slice (Some xs) x = Some (xs @ [x])"

fun elems :: "'a slice \<Rightarrow> 'a list" where
  "elems None = []"
| "elems (Some xs) = xs"

record cloudProviderModel =
  cpm_ID :: tf_String
  cpm_URL :: tf_String

record cloudProvidersDataSourceModel =
  cps_CloudProviders :: "cloudProviderModel slice"

definition providerState_of :: "CloudProvider \<Rightarrow> cloudProviderModel" where
  "providerState_of provider =
     \<lparr>cpm_ID = StringValue (cp_ID provider), cpm_URL = StringValue (cp_URL provider)\<rparr>"

definition cloudProvidersDataSource_Read ::
  "VMCloudAPIClient \<Rightarrow> cloudProvidersDataSourceModel response \<Rightarrow>
   api_call list \<times> cloudProvidersDataSourceModel response" where
  "cloudProvidersDataSource_Read client resp =
    (let state = \<lparr>cps_CloudProviders = None\<rparr>
     in case ListCloudProviders client of
          Inl err \<Rightarrow> ([CallListCloudProviders], AddError resp ''Unable to Read Cloud Providers'' (Detail err))
        | Inr providers \<Rightarrow>
            let state = foldl (\<lambda>state provider.
                           state\<lparr>cps_CloudProviders :=
                                   append_slice (cps_CloudProviders state) (providerState_of provider)\<rparr>)
                         state providers
            in ([CallListCloudProviders], State_Set resp state))"

record regionModel =
  rgm_Name :: tf_String
  rgm_CloudProvider :: tf_String

record regionsDataSourceModel =
  rgs_Regions :: "regionModel slice"

definition regionState_of :: "Region \<Rightarrow> regionModel" where
  "regionState_of region =
     \<lparr>rgm_Name = StringValue (rg_Name region),
      rgm_CloudProvider = StringValue (rg_CloudProvider region)\<rparr>"

definition regionsDataSource_Read ::
  "VMCloudAPIClient \<Rightarrow> regionsDataSourceModel response \<Rightarrow>
   api_call list \<times> regionsDataSourceModel response" where
  "regionsDataSource_Read client resp =
    (let state = \<lparr>rgs_Regions = None\<rparr>
     in case ListRegions client of
          Inl err \<Rightarrow> ([CallListRegions], AddError resp ''Unable to Read Regions'' (Detail err))
        | Inr regions \<Rightarrow>
            let state = foldl (\<lambda>state region.
                           state\<lparr>rgs_Regions := append_slice (rgs_Regions state) (regionState_of region)\<rparr>)
                         state regions
            in ([CallListRegions], State_Set resp state))"

record tierModel =
  trm_ID :: tf_Int64
  trm_Type :: tf_String
  trm_CloudProvider :: tf_String
  trm_Name :: tf_String
  trm_ComputeCostPerHour :: tf_Float64
  trm_IngestionRate :: tf_Int64
  trm_ActiveTimeSeries :: tf_Int64
  trm_NewSeriesOver24h :: tf_Int64
  trm_DatapointsReadRate :: tf_Int64
  trm_SeriesReadPerQuery :: tf_Int64
  trm_AccessTokenConcurrentRequests :: tf_Int64

record tiersDataSourceModel =
  trs_Tiers :: "tierModel slice"

definition tierState_of :: "Tier \<Rightarrow> tierModel" where
  "tierState_of tier =
     \<lparr>trm_ID = Int64Value (ucast (tr_ID tier)),
      trm_Type = StringValue (tr_Type tier),
      trm_CloudProvider = StringValue (tr_CloudProvider tier),
      trm_Name = StringValue (tr_Name tier),
      trm_ComputeCostPerHour = Float64Value (tr_ComputeCostPerHour tier),
      trm_IngestionRate = Int64Value (tr_IngestionRate tier),
      trm_ActiveTimeSeries = Int64Value (tr_ActiveTimeSeries tier),
      trm_NewSeriesOver24h = Int64Value (tr_NewSeriesOver24h tier),
      trm_DatapointsReadRate = Int64Value (tr_DatapointsReadRate tier),
      trm_SeriesReadPerQuery = Int64Value (tr_SeriesReadPerQuery tier),
      trm_AccessTokenConcurrentRequests = Int64Value (tr_AccessTokenConcurrentRequests tier)\<rparr>"

definition tiersDataSource_Read ::
  "VMCloudAPIClient \<Rightarrow> tiersDataSourceModel response \<Rightarrow>
   api_call list \<times> tiersDataSourceModel response" where
  "tiersDataSource_Read client resp =
    (let state = \<lparr>trs_Tiers = None\<rparr>
     in case ListTiers client of
          Inl err \<Rightarrow> ([CallListTiers], AddError resp ''Unable to Read Tiers'' (Detail err))
        | Inr tiers \<Rightarrow>
            let state = foldl (\<lambda>state tier.
                           state\<lparr>trs_Tiers := append_slice (trs_Tiers state) (tierState_of tier)\<rparr>)
                         state tiers
            in ([CallListTiers], State_Set resp state))"

record deploymentSummaryModel =
  dsm_ID :: tf_String
  dsm_Name :: tf_String
  dsm_Type :: tf_String
  dsm_Tier :: tf_Int64
  dsm_Version :: tf_String
  dsm_CloudProvider :: tf_String
  dsm_Region :: tf_String
  dsm_Status :: tf_String
  dsm_CreatedAt :: tf_String

record deploymentsDataSourceModel =
  dss_Deployments :: "deploymentSummaryModel slice"

definition deploymentState_of :: "DeploymentSummary \<Rightarrow> deploymentSummaryModel" where
  "deploymentState_of deployment =
     \<lparr>dsm_ID = StringValue (ds_ID deployment),
      dsm_Name = StringValue (ds_Name deployment),
      dsm_Type = StringValue (ds_Type deployment),
      dsm_Tier = Int64Value (ucast (ds_Tier deployment)),
      dsm_Version = StringValue (ds_Version deployment),
      dsm_CloudProvider = StringValue (ds_CloudProvider deployment),
      dsm_Region = StringValue (ds_Region deployment),
      dsm_Status = StringValue (ds_Status deployment),
      dsm_CreatedAt = StringValue (Format_RFC3339 (ds_CreatedAt deployment))\<rparr>"

definition deploymentsDataSource_Read ::
  "VMCloudAPIClient \<Rightarrow> deploymentsDataSourceModel response \<Rightarrow>
   api_call list \<times> deploymentsDataSourceModel response" where
  "deploymentsDataSource_Read client resp =
    (let state = \<lparr>dss_Deployments = Some []\<rparr>
     in case ListDeployments client of
          Inl err \<Rightarrow> ([CallListDeployments], AddError resp ''Unable to Read Deployments'' (Detail err))
        | Inr deployments \<Rightarrow>
            let state = foldl (\<lambda>state deployment.
                           state\<lparr>dss_Deployments :=
                                   append_slice (dss_Deployments state) (deploymentState_of deployment)\<rparr>)
                         state deployments
            in ([CallListDeployments], State_Set resp state))"

record deploymentDataSourceModel =
  dd_ID :: tf_String
  dd_Name :: tf_String
  dd_Type :: tf_String
  dd_CloudProvider :: tf_String
  dd_Region :: tf_String
  dd_Tier :: tf_Int64
  dd_Retention :: tf_Int64
  dd_RetentionUnit :: tf_String
  dd_Deduplication :: tf_Int64
  dd_DeduplicationUnit :: tf_String
  dd_MaintenanceWindow :: tf_String
  dd_Version :: tf_String
  dd_Status :: tf_String
  dd_CreatedAt :: tf_String
  dd_AccessEndpoint :: tf_String
  dd_StorageSizeGb :: tf_Int64
  dd_ComputeCost :: tf_Float64
  dd_StorageCost :: tf_Float64
  dd_TotalCost :: tf_Float64

definition deploymentDataSource_Read ::
  "VMCloudAPIClient \<Rightarrow> deploymentDataSourceModel tfsdk_Data \<Rightarrow>
   deploymentDataSourceModel response \<Rightarrow> api_call list \<times> deploymentDataSourceModel response" where
  "deploymentDataSource_Read client req_Config resp0 =
    (let state = Get_model req_Config;
         resp = Append resp0 (Get_diags req_Config)
     in if HasError (Diagnostics resp) then ([], resp)
        else
          let call = CallGetDeploymentDetails (ValueString (dd_ID state))
          in
          case GetDeploymentDetails client (ValueString (dd_ID state)) of
            Inl err \<Rightarrow> ([call], AddError resp ''Unable to Read Deployment'' (Detail err))
          | Inr deployment \<Rightarrow>
              let state = state\<lparr>dd_Name := StringValue (dp_Name deployment)\<rparr>;
                  state = state\<lparr>dd_Type := StringValue (dp_Type deployment)\<rparr>;
                  state = state\<lparr>dd_CloudProvider := StringValue (dp_CloudProvider deployment)\<rparr>;
                  state = state\<lparr>dd_Region := StringValue (dp_Region deployment)\<rparr>;
                  state = state\<lparr>dd_Tier := Int64Value (ucast (dp_Tier deployment))\<rparr>;
                  state = state\<lparr>dd_Retention := Int64Value (ucast (dp_RetentionValue deployment))\<rparr>;
                  state = state\<lparr>dd_RetentionUnit := StringValue (dp_RetentionUnit deployment)\<rparr>;
                  state = state\<lparr>dd_Deduplication := Int64Value (ucast (dp_DeduplicationValue deployment))\<rparr>;
                  state = state\<lparr>dd_DeduplicationUnit := StringValue (dp_DeduplicationUnit deployment)\<rparr>;
                  state = state\<lparr>dd_MaintenanceWindow := StringValue (dp_MaintenanceWindow deployment)\<rparr>;
                  state = state\<lparr>dd_Version := StringValue (dp_Version deployment)\<rparr>;
                  state = state\<lparr>dd_Status := StringValue (dp_Status deployment)\<rparr>;
                  state = state\<lparr>dd_CreatedAt := StringValue (Format_RFC3339 (dp_CreatedAt deployment))\<rparr>;
                  state = state\<lparr>dd_AccessEndpoint := StringValue (dp_AccessEndpoint deployment)\<rparr>;
                  state = state\<lparr>dd_StorageSizeGb := Int64Value (dp_StorageSizeGb deployment)\<rparr>;
                  state = state\<lparr>dd_ComputeCost := Float64Value (pr_ComputeCost (dp_Price deployment))\<rparr>;
                  state = state\<lparr>dd_StorageCost := Float64Value (pr_StorageCost (dp_Price deployment))\<rparr>;
                  state = state\<lparr>dd_TotalCost := Float64Value (pr_TotalCost (dp_Price deployment))\<rparr>
              in ([call], State_Set resp state))"

section \<open>The provider\<close>

record victoriametricsCloudProviderModel =
  pm_APIKey :: tf_String
  pm_BaseURL :: tf_String

datatype VMCloudAPIClientOption = WithBaseURL string

record ConfigureResponse =
  cf_Diagnostics :: "diagnostic list"
  cf_DataSourceData :: "VMCloudAPIClient option"
  cf_ResourceData :: "VMCloudAPIClient option"

text \<open>
  \<open>Configure\<close> reads the environment (\<open>os.Getenv\<close>, the empty string for an unset
  variable) and calls the client library's constructor \<open>vmcloudapi.New\<close>; both are
  parameters. It returns the constructor calls it made, each with the API key and the
  options passed, and the response.
\<close>

definition Configure ::
  "(string \<Rightarrow> string) \<Rightarrow>
   (string \<Rightarrow> VMCloudAPIClientOption list \<Rightarrow> string + VMCloudAPIClient) \<Rightarrow>
   victoriametricsCloudProviderModel tfsdk_Data \<Rightarrow> ConfigureResponse \<Rightarrow>
   (string \<times> VMCloudAPIClientOption list) list \<times> ConfigureResponse" where
  "Configure Getenv New req_Config resp0 =
    (let config = Get_model req_Config;
         resp = resp0\<lparr>cf_Diagnostics := cf_Diagnostics resp0 @ Get_diags req_Config\<rparr>
     in if HasError (cf_Diagnostics resp) then ([], resp)
        else
          let apiKey = Getenv ''VMCLOUD_API_KEY'';
              baseURL = Getenv ''VMCLOUD_BASE_URL'';
              apiKey = (if \<not> String_IsNull (pm_APIKey config)
                        then ValueString (pm_APIKey config) else apiKey);
              baseURL = (if \<not> String_IsNull (pm_BaseURL config)
                         then ValueString (pm_BaseURL config) else baseURL)
          in if apiKey = []
             then ([], resp\<lparr>cf_Diagnostics := cf_Diagnostics resp @
                          [ErrorDiagnostic ''Missing API Key Configuration''
                             (Detail (''While configuring the provider, the API key was not found in ''
                                @ ''the VMCLOUD_API_KEY environment variable or provider ''
                                @ ''configuration block api_key attribute.''))]\<rparr>)
             else
               let options = [];
                   options = (if baseURL \<noteq> [] then options @ [WithBaseURL baseURL] else options)
               in case New apiKey options of
                    Inl err \<Rightarrow>
                      ([(apiKey, options)],
                       resp\<lparr>cf_Diagnostics := cf_Diagnostics resp @
                          [ErrorDiagnostic ''Unable to Create VictoriaMetrics Cloud API Client''
                             (Detail (''An unexpected error occurred when creating the VictoriaMetrics Cloud API client: ''
                                @ err))]\<rparr>)
                  | Inr client \<Rightarrow>
                      ([(apiKey, options)],
                       resp\<lparr>cf_DataSourceData := Some client, cf_ResourceData := Some client\<rparr>))"

section \<open>Schemas and replacement\<close>

text \<open>
  The string attributes of a resource schema with their plan modifiers (the
  descriptions are left out). A schema is a Go map from attribute name to attribute;
  the association list holds its entries.
\<close>

datatype planmodifier = UseStateForUnknown | RequiresReplace

record StringAttribute =
  sa_Required :: bool
  sa_Optional :: bool
  sa_Computed :: bool
  sa_Sensitive :: bool
  sa_PlanModifiers :: "planmodifier list"

definition accessTokenResource_Schema :: "(string \<times> StringAttribute) list" where
  "accessTokenResource_Schema =
    [(''id'', \<lparr>sa_Required = False, sa_Optional = False, sa_Computed = True, sa_Sensitive = False,
              sa_PlanModifiers = [UseStateForUnknown]\<rparr>),
     (''deployment_id'', \<lparr>sa_Required = True, sa_Optional = False, sa_Computed = False,
              sa_Sensitive = False, sa_PlanModifiers = [UseStateForUnknown]\<rparr>),
     (''type'', \<lparr>sa_Required = True, sa_Optional = False, sa_Computed = False,
              sa_Sensitive = False, sa_PlanModifiers = [UseStateForUnknown]\<rparr>),
     (''description'', \<lparr>sa_Required = True, sa_Optional = False, sa_Computed = False,
              sa_Sensitive = False, sa_PlanModifiers = [UseStateForUnknown]\<rparr>),
     (''tenant_id'', \<lparr>sa_Required = False, sa_Optional = True, sa_Computed = False,
              sa_Sensitive = False, sa_PlanModifiers = [UseStateForUnknown]\<rparr>),
     (''secret'', \<lparr>sa_Required = False, sa_Optional = False, sa_Computed = True,
              sa_Sensitive = True, sa_PlanModifiers = [UseStateForUnknown]\<rparr>),
     (''created_by'', \<lparr>sa_Required = False, sa_Optional = False, sa_Computed = True,
              sa_Sensitive = False, sa_PlanModifiers = []\<rparr>),
     (''created_at'', \<lparr>sa_Required = False, sa_Optional = False, sa_Computed = True,
              sa_Sensitive = False, sa_PlanModifiers = [UseStateForUnknown]\<rparr>),
     (''last_used_at'', \<lparr>sa_Required = False, sa_Optional = False, sa_Computed = True,
              sa_Sensitive = False, sa_PlanModifiers = []\<rparr>)]"

definition ruleFileResource_Schema :: "(string \<times> StringAttribute) list" where
  "ruleFileResource_Schema =
    [(''id'', \<lparr>sa_Required = False, sa_Optional = False, sa_Computed = True, sa_Sensitive = False,
              sa_PlanModifiers = [UseStateForUnknown]\<rparr>),
     (''deployment_id'', \<lparr>sa_Required = True, sa_Optional = False, sa_Computed = False,
              sa_Sensitive = False, sa_PlanModifiers = [RequiresReplace]\<rparr>),
     (''file_name'', \<lparr>sa_Required = True, sa_Optional = False, sa_Computed = False,
              sa_Sensitive = False, sa_PlanModifiers = [RequiresReplace]\<rparr>),
     (''content'', \<lparr>sa_Required = True, sa_Optional = False, sa_Computed = False,
              sa_Sensitive = False, sa_PlanModifiers = []\<rparr>)]"

text \<open>The attribute of a model under its \<open>tfsdk\<close> tag (null for a name the model lacks).\<close>

definition accessToken_attr :: "accessTokenResourceModel \<Rightarrow> string \<Rightarrow> tf_String" where
  "accessToken_attr m n =
     (if n = ''id'' then tk_ID m
      else if n = ''deployment_id'' then tk_DeploymentID m
      else if n = ''type'' then tk_Type m
      else if n = ''description'' then tk_Description m
      else if n = ''tenant_id'' then tk_TenantID m
      else if n = ''secret'' then tk_Secret m
      else if n = ''created_by'' then tk_CreatedBy m
      else if n = ''created_at'' then tk_CreatedAt m
      else if n = ''last_used_at'' then tk_LastUsedAt m
      else StringNull)"

definition ruleFile_attr :: "ruleFileResourceModel \<Rightarrow> string \<Rightarrow> tf_String" where
  "ruleFile_attr m n =
     (if n = ''id'' then rf_ID m
      else if n = ''deployment_id'' then rf_DeploymentID m
      else if n = ''file_name'' then rf_FileName m
      else if n = ''content'' then rf_Content m
      else StringNull)"

text \<open>
  The framework's \<open>RequiresReplace\<close> modifier marks its attribute for replacement when
  an existing resource is planned with a value that differs from the state's;
  \<open>UseStateForUnknown\<close> never does. Terraform replaces the resource when some attribute
  is marked, and otherwise calls \<open>Update\<close> for a plan that differs from the state.
\<close>

definition RequiresReplace_attrs ::
  "(string \<times> StringAttribute) list \<Rightarrow> (string \<Rightarrow> tf_String) \<Rightarrow> (string \<Rightarrow> tf_String) \<Rightarrow> string list" where
  "RequiresReplace_attrs schema state plan =
     map fst (filter (\<lambda>(n, a). RequiresReplace \<in> set (sa_PlanModifiers a) \<and> state n \<noteq> plan n)
                schema)"

section \<open>Replaying a call, and example inputs\<close>

text \<open>
  Whether the client answers a recorded call with an error: the call's method applied
  to the call's arguments.
\<close>

fun call_failed :: "VMCloudAPIClient \<Rightarrow> api_call \<Rightarrow> bool" where
  "call_failed client (CallCreateDeployment r) = isl (CreateDeployment client r)"
| "call_failed client (CallGetDeploymentDetails i) = isl (GetDeploymentDetails client i)"
| "call_failed client (CallUpdateDeployment i r) = isl (UpdateDeployment client i r)"
| "call_failed client (CallDeleteDeployment i) = (DeleteDeployment client i \<noteq> None)"
| "call_failed client CallListDeployments = isl (ListDeployments client)"
| "call_failed client (CallCreateDeploymentAccessToken i r) =
     isl (CreateDeploymentAccessToken client i r)"
| "call_failed client (CallRevealDeploymentAccessToken i t) =
     isl (RevealDeploymentAccessToken client i t)"
| "call_failed client (CallDeleteDeploymentAccessToken i t) =
     (DeleteDeploymentAccessToken client i t \<noteq> None)"
| "call_failed client (CallCreateDeploymentRuleFileContent i f c) =
     (CreateDeploymentRuleFileContent client i f c \<noteq> None)"
| "call_failed client (CallGetDeploymentRuleFileContent i f) =
     isl (GetDeploymentRuleFileContent client i f)"
| "call_failed client (CallUpdateDeploymentRuleFileContent i f c) =
     (UpdateDeploymentRuleFileContent client i f c \<noteq> None)"
| "call_failed client (CallDeleteDeploymentRuleFile i f) =
     (DeleteDeploymentRuleFile client i f \<noteq> None)"
| "call_failed client CallListCloudProviders = isl (ListCloudProviders client)"
| "call_failed client CallListRegions = isl (ListRegions client)"
| "call_failed client CallListTiers = isl (ListTiers client)"

text \<open>
  Example values: the deployment of \<open>examples/resources\<close> (a single-node deployment
  with one \<open>single_flags\<close> entry), a token, one catalog entry of each kind, a client
  whose every call succeeds and a client whose every call fails.
\<close>

definition demo_deployment :: Deployment where
  "demo_deployment =
     \<lparr>dp_ID = ''d-1'', dp_Name = ''Single demo'', dp_Type = ''single_node'',
      dp_CloudProvider = ''aws'', dp_Region = ''eu-west-1'', dp_Tier = 21,
      dp_RetentionValue = 30, dp_RetentionUnit = ''d'', dp_DeduplicationValue = 30,
      dp_DeduplicationUnit = ''s'', dp_MaintenanceWindow = ''Sat-Sun 3-4am'',
      dp_Version = ''v1.0'', dp_Status = ''RUNNING'',
      dp_CreatedAt = Time ''2025-01-01T00:00:00Z'', dp_AccessEndpoint = ''https://d-1'',
      dp_StorageSizeGb = 2048,
      dp_Price = \<lparr>pr_ComputeCost = 0, pr_StorageCost = 0, pr_TotalCost = 0\<rparr>\<rparr>"

definition demo_summary :: DeploymentSummary where
  "demo_summary =
     \<lparr>ds_ID = ''d-1'', ds_Name = ''Single demo'', ds_Type = ''single_node'', ds_Tier = 21,
      ds_Version = ''v1.0'', ds_CloudProvider = ''aws'', ds_Region = ''eu-west-1'',
      ds_Status = ''RUNNING'', ds_CreatedAt = Time ''2025-01-01T00:00:00Z''\<rparr>"

definition demo_token :: AccessToken where
  "demo_token =
     \<lparr>at_ID = ''t-1'', at_Type = ''rw'', at_Description = ''Application read-write token'',
      at_TenantID = [], at_Secret = ''s3cr3t'', at_CreatedBy = ''user@example.com'',
      at_CreatedAt = Time ''2025-01-01T00:00:00Z'', at_LastUsedAt = None\<rparr>"

definition demo_tier :: Tier where
  "demo_tier =
     \<lparr>tr_ID = 21, tr_Type = ''single_node'', tr_CloudProvider = ''aws'', tr_Name = ''s.starter'',
      tr_ComputeCostPerHour = 0, tr_IngestionRate = 1000, tr_ActiveTimeSeries = 2000,
      tr_NewSeriesOver24h = 3000, tr_DatapointsReadRate = 4000, tr_SeriesReadPerQuery = 5000,
      tr_AccessTokenConcurrentRequests = 6\<rparr>"

definition demo_client :: VMCloudAPIClient where
  "demo_client =
     \<lparr>CreateDeployment = (\<lambda>r. Inr demo_deployment),
      GetDeploymentDetails = (\<lambda>i. Inr demo_deployment),
      UpdateDeployment = (\<lambda>i r. Inr demo_deployment),
      DeleteDeployment = (\<lambda>i. None),
      ListDeployments = Inr [demo_summary],
      CreateDeploymentAccessToken = (\<lambda>i r. Inr demo_token),
      RevealDeploymentAccessToken = (\<lambda>i t. Inr demo_token),
      DeleteDeploymentAccessToken = (\<lambda>i t. None),
      CreateDeploymentRuleFileContent = (\<lambda>i f c. None),
      GetDeploymentRuleFileContent = (\<lambda>i f. Inr ''groups: []''),
      UpdateDeploymentRuleFileContent = (\<lambda>i f c. None),
      DeleteDeploymentRuleFile = (\<lambda>i f. None),
      ListCloudProviders = Inr [\<lparr>cp_ID = ''aws'', cp_URL = ''https://aws.amazon.com''\<rparr>],
      ListRegions = Inr [\<lparr>rg_Name = ''eu-west-1'', rg_CloudProvider = ''aws''\<rparr>,
                         \<lparr>rg_Name = ''us-east-2'', rg_CloudProvider = ''aws''\<rparr>],
      ListTiers = Inr [demo_tier]\<rparr>"

definition down_client :: VMCloudAPIClient where
  "down_client =
     \<lparr>CreateDeployment = (\<lambda>r. Inl ''503''),
      GetDeploymentDetails = (\<lambda>i. Inl ''503''),
      UpdateDeployment = (\<lambda>i r. Inl ''503''),
      DeleteDeployment = (\<lambda>i. Some ''503''),
      ListDeployments = Inl ''503'',
      CreateDeploymentAccessToken = (\<lambda>i r. Inl ''503''),
      RevealDeploymentAccessToken = (\<lambda>i t. Inl ''503''),
      DeleteDeploymentAccessToken = (\<lambda>i t. Some ''503''),
      CreateDeploymentRuleFileContent = (\<lambda>i f c. Some ''503''),
      GetDeploymentRuleFileContent = (\<lambda>i f. Inl ''503''),
      UpdateDeploymentRuleFileContent = (\<lambda>i f c. Some ''503''),
      DeleteDeploymentRuleFile = (\<lambda>i f. Some ''503''),
      ListCloudProviders = Inl ''503'',
      ListRegions = Inl ''503'',
      ListTiers = Inl ''503''\<rparr>"

definition demo_plan :: deploymentResourceModel where
  "demo_plan =
     \<lparr>dr_ID = StringUnknown, dr_Name = StringValue ''Single demo'',
      dr_Type = StringValue ''single_node'', dr_CloudProvider = StringValue ''aws'',
      dr_Region = StringValue ''eu-west-1'', dr_Tier = Int64Value 21,
      dr_StorageSize = Int64Value 20, dr_StorageSizeUnit = StringValue ''GB'',
      dr_Retention = Int64Value 30, dr_RetentionUnit = StringValue ''d'',
      dr_Deduplication = Int64Value 30, dr_DeduplicationUnit = StringValue ''s'',
      dr_MaintenanceWindow = StringValue ''Sat-Sun 3-4am'',
      dr_SingleFlags = ListValue [StringValue ''-search.maxQueryDuration=360s''],
      dr_SelectFlags = ListNull, dr_StorageFlags = ListNull, dr_InsertFlags = ListNull,
      dr_Version = StringUnknown, dr_Status = StringUnknown, dr_CreatedAt = StringUnknown,
      dr_AccessEndpoint = StringUnknown\<rparr>"

definition demo_token_state :: accessTokenResourceModel where
  "demo_token_state =
     \<lparr>tk_ID = StringValue ''t-1'', tk_DeploymentID = StringValue ''d-1'',
      tk_Type = StringValue ''rw'', tk_Description = StringValue ''Application read-write token'',
      tk_TenantID = StringValue ''7:1'', tk_Secret = StringValue ''s3cr3t'',
      tk_CreatedBy = StringValue ''user@example.com'',
      tk_CreatedAt = StringValue ''2025-01-01T00:00:00Z'',
      tk_LastUsedAt = StringValue ''2025-02-01T00:00:00Z''\<rparr>"

definition demo_rule_plan :: ruleFileResourceModel where
  "demo_rule_plan =
     \<lparr>rf_ID = StringUnknown, rf_DeploymentID = StringValue ''d-1'',
      rf_FileName = StringValue ''recording_rules.yaml'', rf_Content = StringValue ''groups: []''\<rparr>"

section \<open>Properties of an operation's outcome\<close>

text \<open>
  The diagnostics an operation added to the response it was given.
\<close>

definition added :: "'m response \<Rightarrow> 'm response \<Rightarrow> diagnostic list" where
  "added resp0 resp = drop (length (Diagnostics resp0)) (Diagnostics resp)"

text \<open>
  Single-call atomicity of an outcome \<open>r\<close> (the calls made and the new response) of an
  operation started on the response \<open>resp0\<close>: at most one client call; if a call was
  made and the client answered it with an error, the operation added an error
  diagnostic and the state is the one of \<open>resp0\<close>; and if the state differs from the
  one of \<open>resp0\<close>, exactly one call was made and the client answered it without error.
\<close>

definition single_call_atomic ::
  "VMCloudAPIClient \<Rightarrow> 'm response \<Rightarrow> api_call list \<times> 'm response \<Rightarrow> bool" where
  "single_call_atomic client resp0 r \<longleftrightarrow>
     length (fst r) \<le> 1 \<and>
     (\<forall>c \<in> set (fst r). call_failed client c \<longrightarrow>
        HasError (added resp0 (snd r)) \<and> State (snd r) = State resp0) \<and>
     (State (snd r) \<noteq> State resp0 \<longrightarrow>
        (case fst r of [c] \<Rightarrow> \<not> call_failed client c | _ \<Rightarrow> False))"

text \<open>
  An outcome whose added error diagnostics, if any, come from decoding (the diagnostics
  \<open>decoding\<close> of the framework's \<open>Get\<close> and \<open>ElementsAs\<close>) or from a client call that
  was answered with an error.
\<close>

definition errors_only_from ::
  "VMCloudAPIClient \<Rightarrow> diagnostic list \<Rightarrow> 'm response \<Rightarrow> api_call list \<times> 'm response \<Rightarrow> bool" where
  "errors_only_from client decoding resp0 r \<longleftrightarrow>
     (HasError (added resp0 (snd r)) \<longrightarrow>
        HasError decoding \<or> list_ex (call_failed client) (fst r))"

section \<open>Auxiliary facts\<close>

lemma HasError_append: "HasError (xs @ ys) = (HasError xs \<or> HasError ys)"
  by (simp add: HasError_def list_ex_iff) blast

lemma HasError_Nil: "HasError [] = False"
  by (simp add: HasError_def)

lemma HasError_Cons: "HasError (d # ds) = (is_error d \<or> HasError ds)"
  by (simp add: HasError_def)

lemmas resp_defs = Append_def AddError_def State_Set_def

lemma Split_no_sep: "sep \<notin> set s \<Longrightarrow> Split s sep = [s]"
  by (induction s) auto

lemma Split_at_sep: "sep \<notin> set a \<Longrightarrow> Split (a @ sep # b) sep = a # Split b sep"
  by (induction a) auto

lemma Split_not_Nil: "Split s sep \<noteq> []"
  by (induction s) (auto split: list.splits)

lemma sint_small: "uint (w :: 64 word) < 2 ^ 63 \<Longrightarrow> sint w = uint w"
proof -
  assume a: "uint w < 2 ^ 63"
  have b: "- (2 ^ 63) \<le> uint w"
    by (rule order_trans [of _ 0]) simp_all
  have "signed_take_bit 63 (uint w) = uint w"
    using b a by (rule signed_take_bit_int_eq_self)
  moreover have "sint w = signed_take_bit 63 (uint w)"
    by (simp add: sint_uint)
  ultimately show ?thesis by simp
qed

lemma added_append [simp]: "added resp0 (resp0\<lparr>Diagnostics := Diagnostics resp0 @ ds\<rparr>) = ds"
  by (simp add: added_def)

lemma added_append_State [simp]:
  "added resp0 (resp0\<lparr>Diagnostics := Diagnostics resp0 @ ds, State := s\<rparr>) = ds"
  by (simp add: added_def)

lemma added_State [simp]: "added resp0 (resp0\<lparr>State := s\<rparr>) = []"
  by (simp add: added_def)

lemma added_same [simp]: "added resp0 resp0 = []"
  by (simp add: added_def)

lemmas outcome_simps = resp_defs Let_def HasError_append HasError_Cons HasError_Nil

section \<open>Access-token state refresh\<close>

text \<open>
  Claim C10. After decoding without error, a successful access-token \<open>Read\<close> stores a
  state whose \<open>last_used_at\<close> is the RFC3339 rendering of the API's last-use time when
  there is one and null when there is none, and whose \<open>tenant_id\<close> is the API's tenant
  ID when that is not empty and the previous state's value otherwise. A successful
  \<open>Create\<close> stores \<open>last_used_at\<close> from the API when it reports a last-use time and
  leaves the planned value otherwise.
\<close>

theorem accessToken_null_handling:
  assumes ok: "\<not> HasError (Diagnostics resp0 @ Get_diags req)"
  shows "(RevealDeploymentAccessToken client (ValueString (tk_DeploymentID (Get_model req)))
            (ValueString (tk_ID (Get_model req))) = Inr token \<longrightarrow>
          (\<exists>st. State (snd (accessTokenResource_Read client req resp0)) = Some st \<and>
             tk_LastUsedAt st = (case at_LastUsedAt token of
                                   Some t \<Rightarrow> StringValue (Format_RFC3339 t)
                                 | None \<Rightarrow> StringNull) \<and>
             tk_TenantID st = (if at_TenantID token \<noteq> [] then StringValue (at_TenantID token)
                               else tk_TenantID (Get_model req)))) \<and>
         (CreateDeploymentAccessToken client (ValueString (tk_DeploymentID (Get_model req)))
            \<lparr>ar_Type = ValueString (tk_Type (Get_model req)),
             ar_Description = ValueString (tk_Description (Get_model req)),
             ar_TenantID = ValueString (tk_TenantID (Get_model req))\<rparr> = Inr token \<longrightarrow>
          (\<exists>st. State (snd (accessTokenResource_Create client req resp0)) = Some st \<and>
             tk_LastUsedAt st = (case at_LastUsedAt token of
                                   Some t \<Rightarrow> StringValue (Format_RFC3339 t)
                                 | None \<Rightarrow> tk_LastUsedAt (Get_model req))))"
proof (intro conjI impI)
  assume "RevealDeploymentAccessToken client (ValueString (tk_DeploymentID (Get_model req)))
            (ValueString (tk_ID (Get_model req))) = Inr token"
  with ok show "\<exists>st. State (snd (accessTokenResource_Read client req resp0)) = Some st \<and>
             tk_LastUsedAt st = (case at_LastUsedAt token of
                                   Some t \<Rightarrow> StringValue (Format_RFC3339 t)
                                 | None \<Rightarrow> StringNull) \<and>
             tk_TenantID st = (if at_TenantID token \<noteq> [] then StringValue (at_TenantID token)
                               else tk_TenantID (Get_model req))"
    by (simp add: accessTokenResource_Read_def resp_defs Let_def split: option.splits)
next
  assume "CreateDeploymentAccessToken client (ValueString (tk_DeploymentID (Get_model req)))
            \<lparr>ar_Type = ValueString (tk_Type (Get_model req)),
             ar_Description = ValueString (tk_Description (Get_model req)),
             ar_TenantID = ValueString (tk_TenantID (Get_model req))\<rparr> = Inr token"
  moreover have "String_IsNull v \<Longrightarrow> ValueString v = []" for v by (cases v) auto
  ultimately show "\<exists>st. State (snd (accessTokenResource_Create client req resp0)) = Some st \<and>
             tk_LastUsedAt st = (case at_LastUsedAt token of
                                   Some t \<Rightarrow> StringValue (Format_RFC3339 t)
                                 | None \<Rightarrow> tk_LastUsedAt (Get_model req))"
    using ok
    by (cases "String_IsNull (tk_TenantID (Get_model req))")
       (simp_all add: accessTokenResource_Create_def resp_defs Let_def split: option.splits)
qed

theorem accessToken_null_handling_witness:
  "\<not> HasError (Diagnostics \<lparr>Diagnostics = [], State = Some demo_token_state\<rparr>
                 @ Get_diags \<lparr>Get_diags = [], Get_model = demo_token_state\<rparr>) \<and>
   RevealDeploymentAccessToken demo_client ''d-1'' ''t-1'' = Inr demo_token \<and>
   at_LastUsedAt demo_token = None \<and> at_TenantID demo_token = [] \<and>
   (\<exists>st. State (snd (accessTokenResource_Read demo_client
                        \<lparr>Get_diags = [], Get_model = demo_token_state\<rparr>
                        \<lparr>Diagnostics = [], State = Some demo_token_state\<rparr>)) = Some st \<and>
         tk_LastUsedAt st = StringNull \<and> tk_TenantID st = StringValue ''7:1'') \<and>
   (\<exists>st. State (snd (accessTokenResource_Create demo_client
                        \<lparr>Get_diags = [], Get_model = demo_token_state\<rparr>
                        \<lparr>Diagnostics = [], State = Some demo_token_state\<rparr>)) = Some st \<and>
         tk_LastUsedAt st = StringValue ''2025-02-01T00:00:00Z'')"
  using accessToken_null_handling
          [of "\<lparr>Diagnostics = [], State = Some demo_token_state\<rparr>"
              "\<lparr>Get_diags = [], Get_model = demo_token_state\<rparr>" demo_client demo_token]
  by (simp add: HasError_def demo_client_def demo_token_def demo_token_state_def)

section \<open>Composite identifiers\<close>

lemma two_parts_iff:
  "(length parts \<noteq> 2 \<or> parts ! 0 = [] \<or> parts ! 1 = []) =
   (\<not> (\<exists>a b. parts = [a, b] \<and> a \<noteq> [] \<and> b \<noteq> []))"
proof (cases parts)
  case Nil
  then show ?thesis by simp
next
  case (Cons a rest)
  show ?thesis
  proof (cases rest)
    case Nil
    with Cons show ?thesis by simp
  next
    case (Cons b rest')
    with \<open>parts = a # rest\<close> show ?thesis by (cases rest') auto
  qed
qed

lemma Split_composite:
  "CHR ''/'' \<notin> set d \<Longrightarrow> CHR ''/'' \<notin> set f \<Longrightarrow> Split (d @ CHR ''/'' # f) (CHR ''/'') = [d, f]"
  by (simp add: Split_at_sep Split_no_sep)

text \<open>
  Claim C3. A successful rule-file \<open>Create\<close> stores the plan with \<open>id\<close> set to the
  deployment ID, a slash and the file name. For non-empty \<open>d\<close> and \<open>f\<close> without a
  slash, importing \<open>d/f\<close> makes no API call and sets \<open>deployment_id\<close> to \<open>d\<close> and
  \<open>file_name\<close> (for a token, \<open>id\<close>) to \<open>f\<close>; the rule file's \<open>id\<close> is the import ID.
  \<open>ImportState\<close> appends the Invalid Import ID error exactly when splitting the import
  ID at slashes does not give two non-empty parts, and appends nothing otherwise.
\<close>

theorem composite_id_round_trip:
  "(\<not> HasError (Diagnostics resp0 @ Get_diags req) \<and>
    CreateDeploymentRuleFileContent client (ValueString (rf_DeploymentID (Get_model req)))
      (ValueString (rf_FileName (Get_model req))) (ValueString (rf_Content (Get_model req))) = None
    \<longrightarrow> State (snd (ruleFileResource_Create client req resp0)) =
          Some ((Get_model req)\<lparr>rf_ID := StringValue (ValueString (rf_DeploymentID (Get_model req))
                                      @ ''/'' @ ValueString (rf_FileName (Get_model req)))\<rparr>)) \<and>
   (d \<noteq> [] \<and> f \<noteq> [] \<and> CHR ''/'' \<notin> set d \<and> CHR ''/'' \<notin> set f \<longrightarrow>
      (fst (ruleFileResource_ImportState (d @ ''/'' @ f) rresp) = [] \<and>
       (\<exists>st. State (snd (ruleFileResource_ImportState (d @ ''/'' @ f) rresp)) = Some st \<and>
            rf_DeploymentID st = StringValue d \<and> rf_FileName st = StringValue f \<and>
            rf_ID st = StringValue (d @ ''/'' @ f))) \<and>
      (fst (accessTokenResource_ImportState (d @ ''/'' @ f) tresp) = [] \<and>
       (\<exists>st. State (snd (accessTokenResource_ImportState (d @ ''/'' @ f) tresp)) = Some st \<and>
            tk_DeploymentID st = StringValue d \<and> tk_ID st = StringValue f))) \<and>
   (Diagnostics (snd (ruleFileResource_ImportState i rresp)) =
      Diagnostics rresp @
        (if \<exists>a b. Split i (CHR ''/'') = [a, b] \<and> a \<noteq> [] \<and> b \<noteq> [] then []
         else [ErrorDiagnostic ''Invalid Import ID''
                 (Sprintf ''Expected import identifier with format: deployment_id/file_name. Got: %q'' [i])])) \<and>
   (Diagnostics (snd (accessTokenResource_ImportState i tresp)) =
      Diagnostics tresp @
        (if \<exists>a b. Split i (CHR ''/'') = [a, b] \<and> a \<noteq> [] \<and> b \<noteq> [] then []
         else [ErrorDiagnostic ''Invalid Import ID''
                 (Sprintf ''Expected import identifier with format: deployment_id/token_id. Got: %q'' [i])]))"
proof -
  have create: "State (snd (ruleFileResource_Create client req resp0)) =
          Some ((Get_model req)\<lparr>rf_ID := StringValue (ValueString (rf_DeploymentID (Get_model req))
                                      @ ''/'' @ ValueString (rf_FileName (Get_model req)))\<rparr>)"
    if "\<not> HasError (Diagnostics resp0 @ Get_diags req) \<and>
        CreateDeploymentRuleFileContent client (ValueString (rf_DeploymentID (Get_model req)))
          (ValueString (rf_FileName (Get_model req))) (ValueString (rf_Content (Get_model req))) = None"
    using that by (simp add: ruleFileResource_Create_def resp_defs Let_def)
  have import: "(fst (ruleFileResource_ImportState (d @ ''/'' @ f) rresp) = [] \<and>
       (\<exists>st. State (snd (ruleFileResource_ImportState (d @ ''/'' @ f) rresp)) = Some st \<and>
            rf_DeploymentID st = StringValue d \<and> rf_FileName st = StringValue f \<and>
            rf_ID st = StringValue (d @ ''/'' @ f))) \<and>
      (fst (accessTokenResource_ImportState (d @ ''/'' @ f) tresp) = [] \<and>
       (\<exists>st. State (snd (accessTokenResource_ImportState (d @ ''/'' @ f) tresp)) = Some st \<and>
            tk_DeploymentID st = StringValue d \<and> tk_ID st = StringValue f))"
    if h: "d \<noteq> [] \<and> f \<noteq> [] \<and> CHR ''/'' \<notin> set d \<and> CHR ''/'' \<notin> set f"
  proof -
    from h have sp: "Split (d @ CHR ''/'' # f) (CHR ''/'') = [d, f]"
      by (simp add: Split_composite)
    from h sp show ?thesis
      by (simp add: ruleFileResource_ImportState_def ruleFile_SetAttribute_def
            accessTokenResource_ImportState_def accessToken_SetAttribute_def Let_def)
  qed
  have rdiag: "Diagnostics (snd (ruleFileResource_ImportState i rresp)) =
      Diagnostics rresp @
        (if \<exists>a b. Split i (CHR ''/'') = [a, b] \<and> a \<noteq> [] \<and> b \<noteq> [] then []
         else [ErrorDiagnostic ''Invalid Import ID''
                 (Sprintf ''Expected import identifier with format: deployment_id/file_name. Got: %q'' [i])])"
    unfolding ruleFileResource_ImportState_def Let_def two_parts_iff
    by (simp add: ruleFile_SetAttribute_def AddError_def)
  have tdiag: "Diagnostics (snd (accessTokenResource_ImportState i tresp)) =
      Diagnostics tresp @
        (if \<exists>a b. Split i (CHR ''/'') = [a, b] \<and> a \<noteq> [] \<and> b \<noteq> [] then []
         else [ErrorDiagnostic ''Invalid Import ID''
                 (Sprintf ''Expected import identifier with format: deployment_id/token_id. Got: %q'' [i])])"
    unfolding accessTokenResource_ImportState_def Let_def two_parts_iff
    by (simp add: accessToken_SetAttribute_def AddError_def)
  from create import rdiag tdiag show ?thesis by blast
qed

theorem composite_id_round_trip_witness:
  "\<not> HasError (Diagnostics \<lparr>Diagnostics = [], State = None\<rparr>
                 @ Get_diags \<lparr>Get_diags = [], Get_model = demo_rule_plan\<rparr>) \<and>
   CreateDeploymentRuleFileContent demo_client ''d-1'' ''recording_rules.yaml'' ''groups: []'' = None \<and>
   State (snd (ruleFileResource_Create demo_client \<lparr>Get_diags = [], Get_model = demo_rule_plan\<rparr>
                 \<lparr>Diagnostics = [], State = None\<rparr>)) =
     Some (demo_rule_plan\<lparr>rf_ID := StringValue ''d-1/recording_rules.yaml''\<rparr>) \<and>
   ''d-1'' \<noteq> [] \<and> ''recording_rules.yaml'' \<noteq> [] \<and>
   CHR ''/'' \<notin> set ''d-1'' \<and> CHR ''/'' \<notin> set ''recording_rules.yaml'' \<and>
   (\<exists>st. State (snd (ruleFileResource_ImportState ''d-1/recording_rules.yaml''
                        \<lparr>Diagnostics = [], State = None\<rparr>)) = Some st \<and>
         rf_DeploymentID st = StringValue ''d-1'' \<and>
         rf_FileName st = StringValue ''recording_rules.yaml'') \<and>
   (\<exists>st. State (snd (accessTokenResource_ImportState ''d-1/recording_rules.yaml''
                        \<lparr>Diagnostics = [], State = None\<rparr>)) = Some st \<and>
         tk_DeploymentID st = StringValue ''d-1'' \<and> tk_ID st = StringValue ''recording_rules.yaml'')"
proof -
  have pre1: "\<not> HasError (Diagnostics \<lparr>Diagnostics = [], State = None\<rparr>
                 @ Get_diags \<lparr>Get_diags = [], Get_model = demo_rule_plan\<rparr>) \<and>
     CreateDeploymentRuleFileContent demo_client
       (ValueString (rf_DeploymentID (Get_model \<lparr>Get_diags = [], Get_model = demo_rule_plan\<rparr>)))
       (ValueString (rf_FileName (Get_model \<lparr>Get_diags = [], Get_model = demo_rule_plan\<rparr>)))
       (ValueString (rf_Content (Get_model \<lparr>Get_diags = [], Get_model = demo_rule_plan\<rparr>))) = None"
    by (simp add: HasError_def demo_client_def)
  have pre2: "''d-1'' \<noteq> [] \<and> ''recording_rules.yaml'' \<noteq> [] \<and>
     CHR ''/'' \<notin> set ''d-1'' \<and> CHR ''/'' \<notin> set ''recording_rules.yaml''"
    by simp
  note t = composite_id_round_trip
          [of "\<lparr>Diagnostics = [], State = None\<rparr>" "\<lparr>Get_diags = [], Get_model = demo_rule_plan\<rparr>"
              demo_client "''d-1''" "''recording_rules.yaml''"
              "\<lparr>Diagnostics = [], State = None\<rparr>" "\<lparr>Diagnostics = [], State = None\<rparr>" "''x''"]
  from t pre1 have c1: "State (snd (ruleFileResource_Create demo_client
                 \<lparr>Get_diags = [], Get_model = demo_rule_plan\<rparr>
                 \<lparr>Diagnostics = [], State = None\<rparr>)) =
     Some (demo_rule_plan\<lparr>rf_ID := StringValue ''d-1/recording_rules.yaml''\<rparr>)"
    by (simp add: demo_rule_plan_def)
  from t pre2 have c2: "(\<exists>st. State (snd (ruleFileResource_ImportState ''d-1/recording_rules.yaml''
                        \<lparr>Diagnostics = [], State = None\<rparr>)) = Some st \<and>
         rf_DeploymentID st = StringValue ''d-1'' \<and>
         rf_FileName st = StringValue ''recording_rules.yaml'')"
    by auto
  from t pre2 have c3: "(\<exists>st. State (snd (accessTokenResource_ImportState ''d-1/recording_rules.yaml''
                        \<lparr>Diagnostics = [], State = None\<rparr>)) = Some st \<and>
         tk_DeploymentID st = StringValue ''d-1'' \<and> tk_ID st = StringValue ''recording_rules.yaml'')"
    by auto
  from pre1 pre2 c1 c2 c3 show ?thesis
    by (simp add: demo_rule_plan_def)
qed

section \<open>Storage size of a refreshed deployment\<close>

lemma tb_round_trip_word: "n < 2 ^ 54 \<Longrightarrow> (n * 1024) div 1024 = (n :: 64 word)"
proof -
  assume "n < 2 ^ 54"
  then have "unat n < 2 ^ 54" by (simp add: word_less_nat_alt)
  then have "unat n * unat (1024 :: 64 word) < 2 ^ LENGTH(64)" by simp
  then show ?thesis by (simp add: word_div_mult)
qed

lemma sint_div_1024: "sint ((w :: 64 word) div 1024) = uint w div 1024"
proof -
  have "uint w < 2 ^ 64" using uint_bounded [of w] by simp
  then have "uint w div 1024 < 2 ^ 63" by simp
  then have "uint (w div 1024) < 2 ^ 63" by (simp add: uint_div)
  then have "sint (w div 1024) = uint (w div 1024)" by (rule sint_small)
  then show ?thesis by (simp add: uint_div)
qed

lemma deploymentResource_Read_State:
  assumes "\<not> HasError (Diagnostics resp0 @ Get_diags req)"
      and "GetDeploymentDetails client (ValueString (dr_ID (Get_model req))) = Inr d"
  shows "\<exists>st. State (snd (deploymentResource_Read client req resp0)) = Some st \<and>
           dr_StorageSize st = storage_size_of (Get_model req) (dp_StorageSizeGb d)"
  using assms
  by (simp add: deploymentResource_Read_def resp_defs Let_def storage_size_of_def)

text \<open>
  Claim C2. After decoding without error, a deployment \<open>Read\<close> whose API call succeeds
  stores a state whose \<open>storage_size\<close> is: for the unit \<open>GB\<close>, the API's
  \<open>StorageSizeGb\<close> converted to \<open>int64\<close> (the same 64 bits, the same number below
  \<open>2^63\<close>); for the unit \<open>TB\<close>, \<open>StorageSizeGb\<close> divided by 1024, rounding down, so
  that a size of \<open>n * 1024\<close> GB reads back as \<open>n\<close> TB; and for every other unit value
  (null and unknown included) the storage size of the prior state.
\<close>

theorem deployment_Read_storage_size:
  assumes ok: "\<not> HasError (Diagnostics resp0 @ Get_diags req)"
      and api: "GetDeploymentDetails client (ValueString (dr_ID (Get_model req))) = Inr d"
  shows "\<exists>st. State (snd (deploymentResource_Read client req resp0)) = Some st \<and>
           (dr_StorageSizeUnit (Get_model req) = StringValue ''GB'' \<longrightarrow>
              dr_StorageSize st = Int64Value (dp_StorageSizeGb d) \<and>
              (uint (dp_StorageSizeGb d) < 2 ^ 63 \<longrightarrow>
                 sint (ValueInt64 (dr_StorageSize st)) = uint (dp_StorageSizeGb d))) \<and>
           (dr_StorageSizeUnit (Get_model req) = StringValue ''TB'' \<longrightarrow>
              dr_StorageSize st = Int64Value (dp_StorageSizeGb d div 1024) \<and>
              sint (ValueInt64 (dr_StorageSize st)) = uint (dp_StorageSizeGb d) div 1024 \<and>
              (\<forall>n. n < 2 ^ 54 \<and> dp_StorageSizeGb d = n * 1024 \<longrightarrow>
                   dr_StorageSize st = Int64Value n)) \<and>
           (dr_StorageSizeUnit (Get_model req) \<noteq> StringValue ''GB'' \<and>
            dr_StorageSizeUnit (Get_model req) \<noteq> StringValue ''TB'' \<longrightarrow>
              dr_StorageSize st = dr_StorageSize (Get_model req))"
proof -
  from deploymentResource_Read_State [OF ok api]
  obtain st where st: "State (snd (deploymentResource_Read client req resp0)) = Some st"
    and sz: "dr_StorageSize st = storage_size_of (Get_model req) (dp_StorageSizeGb d)"
    by blast
  have gb: "dr_StorageSize st = Int64Value (dp_StorageSizeGb d) \<and>
              (uint (dp_StorageSizeGb d) < 2 ^ 63 \<longrightarrow>
                 sint (ValueInt64 (dr_StorageSize st)) = uint (dp_StorageSizeGb d))"
    if "dr_StorageSizeUnit (Get_model req) = StringValue ''GB''"
    using that sz sint_small [of "dp_StorageSizeGb d"] by (simp add: storage_size_of_def)
  have tb: "dr_StorageSize st = Int64Value (dp_StorageSizeGb d div 1024) \<and>
              sint (ValueInt64 (dr_StorageSize st)) = uint (dp_StorageSizeGb d) div 1024 \<and>
              (\<forall>n. n < 2 ^ 54 \<and> dp_StorageSizeGb d = n * 1024 \<longrightarrow>
                   dr_StorageSize st = Int64Value n)"
    if "dr_StorageSizeUnit (Get_model req) = StringValue ''TB''"
    using that sz sint_div_1024 [of "dp_StorageSizeGb d"] tb_round_trip_word
    by (auto simp add: storage_size_of_def)
  have other: "dr_StorageSize st = dr_StorageSize (Get_model req)"
    if "dr_StorageSizeUnit (Get_model req) \<noteq> StringValue ''GB'' \<and>
        dr_StorageSizeUnit (Get_model req) \<noteq> StringValue ''TB''"
    using that sz by (cases "dr_StorageSizeUnit (Get_model req)") (auto simp add: storage_size_of_def)
  from st gb tb other show ?thesis by blast
qed

theorem deployment_Read_storage_size_witness:
  "\<not> HasError (Diagnostics \<lparr>Diagnostics = [], State = Some (demo_plan\<lparr>dr_StorageSizeUnit := StringValue ''TB''\<rparr>)\<rparr>
                 @ Get_diags \<lparr>Get_diags = [], Get_model = demo_plan\<lparr>dr_StorageSizeUnit := StringValue ''TB''\<rparr>\<rparr>) \<and>
   GetDeploymentDetails demo_client [] = Inr demo_deployment \<and>
   dp_StorageSizeGb demo_deployment = 2 * 1024 \<and> (2 :: 64 word) < 2 ^ 54 \<and>
   (\<exists>st. State (snd (deploymentResource_Read demo_client
                        \<lparr>Get_diags = [], Get_model = demo_plan\<lparr>dr_StorageSizeUnit := StringValue ''TB''\<rparr>\<rparr>
                        \<lparr>Diagnostics = [], State = Some (demo_plan\<lparr>dr_StorageSizeUnit := StringValue ''TB''\<rparr>)\<rparr>))
           = Some st \<and> dr_StorageSize st = Int64Value 2)"
proof -
  let ?m = "demo_plan\<lparr>dr_StorageSizeUnit := StringValue ''TB''\<rparr>"
  let ?req = "\<lparr>Get_diags = [], Get_model = ?m\<rparr>"
  let ?resp = "\<lparr>Diagnostics = [], State = Some ?m\<rparr>"
  have ok: "\<not> HasError (Diagnostics ?resp @ Get_diags ?req)" by (simp add: HasError_def)
  have api: "GetDeploymentDetails demo_client (ValueString (dr_ID (Get_model ?req))) = Inr demo_deployment"
    by (simp add: demo_client_def)
  have unit: "dr_StorageSizeUnit (Get_model ?req) = StringValue ''TB''" by simp
  have gb: "dp_StorageSizeGb demo_deployment = 2 * 1024" by (simp add: demo_deployment_def)
  have small: "(2 :: 64 word) < 2 ^ 54" by simp
  from deployment_Read_storage_size [OF ok api] unit gb small
  have "\<exists>st. State (snd (deploymentResource_Read demo_client ?req ?resp)) = Some st \<and>
             dr_StorageSize st = Int64Value 2"
    by blast
  with ok api gb small show ?thesis by (simp add: demo_plan_def demo_client_def)
qed

section \<open>Provider configuration\<close>

text \<open>
  Claim C9. When the configuration decodes without error, the API key is the
  configured \<open>api_key\<close> unless that is null, and then the environment variable; the
  base URL likewise. A non-null configured value wins even when it is empty (or
  unknown, which reads as empty). If the API key is empty, \<open>Configure\<close> appends the
  Missing API Key error, never calls the constructor and hands out no client.
  Otherwise it calls the constructor once with the API key and with exactly the option
  \<open>WithBaseURL\<close> of the base URL when the base URL is non-empty and with no option when
  it is empty, and adds no Missing API Key error.
\<close>

theorem Configure_precedence:
  assumes ok: "\<not> HasError (cf_Diagnostics resp0 @ Get_diags req)"
  shows "let apiKey = (if String_IsNull (pm_APIKey (Get_model req)) then Getenv ''VMCLOUD_API_KEY''
                       else ValueString (pm_APIKey (Get_model req)));
             baseURL = (if String_IsNull (pm_BaseURL (Get_model req)) then Getenv ''VMCLOUD_BASE_URL''
                        else ValueString (pm_BaseURL (Get_model req)));
             options = (if baseURL \<noteq> [] then [WithBaseURL baseURL] else []);
             r = Configure Getenv New req resp0
         in (apiKey = [] \<longrightarrow>
               fst r = [] \<and>
               (\<exists>d. cf_Diagnostics (snd r) =
                      cf_Diagnostics resp0 @ Get_diags req @
                      [ErrorDiagnostic ''Missing API Key Configuration'' d]) \<and>
               cf_DataSourceData (snd r) = cf_DataSourceData resp0 \<and>
               cf_ResourceData (snd r) = cf_ResourceData resp0) \<and>
            (apiKey \<noteq> [] \<longrightarrow>
               fst r = [(apiKey, options)] \<and>
               (case New apiKey options of
                  Inl err \<Rightarrow>
                    (\<exists>d. cf_Diagnostics (snd r) =
                           cf_Diagnostics resp0 @ Get_diags req @
                           [ErrorDiagnostic ''Unable to Create VictoriaMetrics Cloud API Client'' d]) \<and>
                    cf_DataSourceData (snd r) = cf_DataSourceData resp0 \<and>
                    cf_ResourceData (snd r) = cf_ResourceData resp0
                | Inr client \<Rightarrow>
                    cf_Diagnostics (snd r) = cf_Diagnostics resp0 @ Get_diags req \<and>
                    cf_DataSourceData (snd r) = Some client \<and>
                    cf_ResourceData (snd r) = Some client))"
proof -
  define apiKey where "apiKey = (if String_IsNull (pm_APIKey (Get_model req)) then Getenv ''VMCLOUD_API_KEY''
                       else ValueString (pm_APIKey (Get_model req)))"
  define baseURL where "baseURL = (if String_IsNull (pm_BaseURL (Get_model req)) then Getenv ''VMCLOUD_BASE_URL''
                        else ValueString (pm_BaseURL (Get_model req)))"
  define options where "options = (if baseURL \<noteq> [] then [WithBaseURL baseURL] else [])"
  define r where "r = Configure Getenv New req resp0"
  have missing: "fst r = [] \<and>
               (\<exists>d. cf_Diagnostics (snd r) =
                      cf_Diagnostics resp0 @ Get_diags req @
                      [ErrorDiagnostic ''Missing API Key Configuration'' d]) \<and>
               cf_DataSourceData (snd r) = cf_DataSourceData resp0 \<and>
               cf_ResourceData (snd r) = cf_ResourceData resp0"
    if "apiKey = []"
    using that ok unfolding r_def Configure_def apiKey_def
    by (auto simp add: Let_def simp del: append_Cons split: if_splits)
  have called: "fst r = [(apiKey, options)]" if "apiKey \<noteq> []"
    using that ok unfolding r_def Configure_def apiKey_def options_def baseURL_def
    by (auto simp add: Let_def simp del: append_Cons split: if_splits sum.splits)
  have failed: "(\<exists>d. cf_Diagnostics (snd r) =
                           cf_Diagnostics resp0 @ Get_diags req @
                           [ErrorDiagnostic ''Unable to Create VictoriaMetrics Cloud API Client'' d]) \<and>
                    cf_DataSourceData (snd r) = cf_DataSourceData resp0 \<and>
                    cf_ResourceData (snd r) = cf_ResourceData resp0"
    if "apiKey \<noteq> []" "New apiKey options = Inl err" for err
    using that ok unfolding r_def Configure_def apiKey_def options_def baseURL_def
    by (auto simp add: Let_def simp del: append_Cons split: if_splits)
  have made: "cf_Diagnostics (snd r) = cf_Diagnostics resp0 @ Get_diags req \<and>
                    cf_DataSourceData (snd r) = Some client \<and>
                    cf_ResourceData (snd r) = Some client"
    if "apiKey \<noteq> []" "New apiKey options = Inr client" for client
    using that ok unfolding r_def Configure_def apiKey_def options_def baseURL_def
    by (auto simp add: Let_def simp del: append_Cons split: if_splits)
  have main: "(apiKey = [] \<longrightarrow>
               fst r = [] \<and>
               (\<exists>d. cf_Diagnostics (snd r) =
                      cf_Diagnostics resp0 @ Get_diags req @
                      [ErrorDiagnostic ''Missing API Key Configuration'' d]) \<and>
               cf_DataSourceData (snd r) = cf_DataSourceData resp0 \<and>
               cf_ResourceData (snd r) = cf_ResourceData resp0) \<and>
            (apiKey \<noteq> [] \<longrightarrow>
               fst r = [(apiKey, options)] \<and>
               (case New apiKey options of
                  Inl err \<Rightarrow>
                    (\<exists>d. cf_Diagnostics (snd r) =
                           cf_Diagnostics resp0 @ Get_diags req @
                           [ErrorDiagnostic ''Unable to Create VictoriaMetrics Cloud API Client'' d]) \<and>
                    cf_DataSourceData (snd r) = cf_DataSourceData resp0 \<and>
                    cf_ResourceData (snd r) = cf_ResourceData resp0
                | Inr client \<Rightarrow>
                    cf_Diagnostics (snd r) = cf_Diagnostics resp0 @ Get_diags req \<and>
                    cf_DataSourceData (snd r) = Some client \<and>
                    cf_ResourceData (snd r) = Some client))"
  proof (cases "New apiKey options")
    case (Inl err)
    with missing called failed [OF _ Inl] show ?thesis by simp
  next
    case (Inr client)
    with missing called made [OF _ Inr] show ?thesis by simp
  qed
  then show ?thesis
    unfolding Let_def apiKey_def baseURL_def options_def r_def .
qed

theorem Configure_precedence_witness:
  "\<not> HasError (cf_Diagnostics \<lparr>cf_Diagnostics = [], cf_DataSourceData = None, cf_ResourceData = None\<rparr>
                 @ Get_diags \<lparr>Get_diags = [],
                      Get_model = \<lparr>pm_APIKey = StringValue [], pm_BaseURL = StringNull\<rparr>\<rparr>) \<and>
   fst (Configure (\<lambda>n. ''from-env'') (\<lambda>k os. Inl ''refused'')
          \<lparr>Get_diags = [], Get_model = \<lparr>pm_APIKey = StringValue [], pm_BaseURL = StringNull\<rparr>\<rparr>
          \<lparr>cf_Diagnostics = [], cf_DataSourceData = None, cf_ResourceData = None\<rparr>) = [] \<and>
   (\<exists>d. cf_Diagnostics (snd (Configure (\<lambda>n. ''from-env'') (\<lambda>k os. Inl ''refused'')
          \<lparr>Get_diags = [], Get_model = \<lparr>pm_APIKey = StringValue [], pm_BaseURL = StringNull\<rparr>\<rparr>
          \<lparr>cf_Diagnostics = [], cf_DataSourceData = None, cf_ResourceData = None\<rparr>)) =
        [ErrorDiagnostic ''Missing API Key Configuration'' d]) \<and>
   fst (Configure (\<lambda>n. ''from-env'') (\<lambda>k os. Inl ''refused'')
          \<lparr>Get_diags = [], Get_model = \<lparr>pm_APIKey = StringNull, pm_BaseURL = StringValue []\<rparr>\<rparr>
          \<lparr>cf_Diagnostics = [], cf_DataSourceData = None, cf_ResourceData = None\<rparr>)
     = [(''from-env'', [])] \<and>
   fst (Configure (\<lambda>n. ''from-env'') (\<lambda>k os. Inl ''refused'')
          \<lparr>Get_diags = [], Get_model = \<lparr>pm_APIKey = StringValue ''k'', pm_BaseURL = StringNull\<rparr>\<rparr>
          \<lparr>cf_Diagnostics = [], cf_DataSourceData = None, cf_ResourceData = None\<rparr>)
     = [(''k'', [WithBaseURL ''from-env''])]"
proof -
  let ?resp = "\<lparr>cf_Diagnostics = [], cf_DataSourceData = None, cf_ResourceData = None\<rparr>"
  let ?req1 = "\<lparr>Get_diags = [], Get_model = \<lparr>pm_APIKey = StringValue [], pm_BaseURL = StringNull\<rparr>\<rparr>"
  let ?req2 = "\<lparr>Get_diags = [], Get_model = \<lparr>pm_APIKey = StringNull, pm_BaseURL = StringValue []\<rparr>\<rparr>"
  let ?req3 = "\<lparr>Get_diags = [], Get_model = \<lparr>pm_APIKey = StringValue ''k'', pm_BaseURL = StringNull\<rparr>\<rparr>"
  let ?env = "\<lambda>n::string. ''from-env''"
  let ?new = "\<lambda>(k::string) (os::VMCloudAPIClientOption list). (Inl ''refused'' :: string + VMCloudAPIClient)"
  have ok1: "\<not> HasError (cf_Diagnostics ?resp @ Get_diags ?req1)" by (simp add: HasError_def)
  have ok2: "\<not> HasError (cf_Diagnostics ?resp @ Get_diags ?req2)" by (simp add: HasError_def)
  have ok3: "\<not> HasError (cf_Diagnostics ?resp @ Get_diags ?req3)" by (simp add: HasError_def)
  from Configure_precedence [OF ok1, of ?env ?new]
  have a: "fst (Configure ?env ?new ?req1 ?resp) = [] \<and>
     (\<exists>d. cf_Diagnostics (snd (Configure ?env ?new ?req1 ?resp)) =
        [ErrorDiagnostic ''Missing API Key Configuration'' d])"
    by (simp add: Let_def)
  from Configure_precedence [OF ok2, of ?env ?new]
  have b: "fst (Configure ?env ?new ?req2 ?resp) = [(''from-env'', [])]"
    by (simp add: Let_def)
  from Configure_precedence [OF ok3, of ?env ?new]
  have c: "fst (Configure ?env ?new ?req3 ?resp) = [(''k'', [WithBaseURL ''from-env''])]"
    by (simp add: Let_def)
  from ok1 a b c show ?thesis by simp
qed

section \<open>The frame of a deployment update\<close>

lemma updateRequest_of_frame:
  "updateRequest_of (plan\<lparr>dr_Type := t, dr_CloudProvider := c, dr_Region := r\<rparr>) flags
     = updateRequest_of plan flags"
  by (simp add: updateRequest_of_def)

lemma deploymentResource_Update_cases:
  "deploymentResource_Update client req resp0 =
    (let plan = Get_model req;
         fd = fst (flag_step (dr_SingleFlags plan) []) @ fst (flag_step (dr_SelectFlags plan) []) @
              fst (flag_step (dr_StorageFlags plan) []) @ fst (flag_step (dr_InsertFlags plan) []);
         flags = \<lparr>fl_SingleFlags = snd (flag_step (dr_SingleFlags plan) []),
                  fl_SelectFlags = snd (flag_step (dr_SelectFlags plan) []),
                  fl_StorageFlags = snd (flag_step (dr_StorageFlags plan) []),
                  fl_InsertFlags = snd (flag_step (dr_InsertFlags plan) [])\<rparr>;
         call = CallUpdateDeployment (ValueString (dr_ID plan)) (updateRequest_of plan flags)
     in if HasError (Diagnostics resp0 @ Get_diags req)
        then ([], resp0\<lparr>Diagnostics := Diagnostics resp0 @ Get_diags req\<rparr>)
        else if HasError fd
        then ([], resp0\<lparr>Diagnostics := Diagnostics resp0 @ Get_diags req @ fd\<rparr>)
        else
          case UpdateDeployment client (ValueString (dr_ID plan)) (updateRequest_of plan flags) of
            Inl err \<Rightarrow>
              ([call],
               resp0\<lparr>Diagnostics := Diagnostics resp0 @ Get_diags req @ fd @
                  [ErrorDiagnostic ''Error updating deployment''
                     (Detail (''Could not update deployment, unexpected error: '' @ err))]\<rparr>)
          | Inr deployment \<Rightarrow>
              ([call],
               resp0\<lparr>Diagnostics := Diagnostics resp0 @ Get_diags req @ fd,
                     State := Some (plan\<lparr>dr_Version := StringValue (dp_Version deployment),
                                         dr_Status := StringValue (dp_Status deployment),
                                         dr_AccessEndpoint := StringValue (dp_AccessEndpoint deployment)\<rparr>)\<rparr>))"
  unfolding deploymentResource_Update_def Let_def
  by (simp add: resp_defs HasError_append split_beta del: append_Cons split: sum.splits)

lemma deploymentResource_Update_success:
  "State (snd (deploymentResource_Update client req resp0)) =
        Some ((Get_model req)\<lparr>dr_Version := StringValue (dp_Version d),
                               dr_Status := StringValue (dp_Status d),
                               dr_AccessEndpoint := StringValue (dp_AccessEndpoint d)\<rparr>)"
  if h: "fst (deploymentResource_Update client req resp0) = [CallUpdateDeployment i rq] \<and>
        UpdateDeployment client i rq = Inr d"
proof -
  let ?fd = "fst (flag_step (dr_SingleFlags (Get_model req)) []) @
             fst (flag_step (dr_SelectFlags (Get_model req)) []) @
             fst (flag_step (dr_StorageFlags (Get_model req)) []) @
             fst (flag_step (dr_InsertFlags (Get_model req)) [])"
  show ?thesis
  proof (cases "HasError (Diagnostics resp0 @ Get_diags req)")
    case True
    then have "fst (deploymentResource_Update client req resp0) = []"
      by (simp add: deploymentResource_Update_cases Let_def)
    with h show ?thesis by simp
  next
    case e1: False
    show ?thesis
    proof (cases "HasError ?fd")
      case True
      with e1 have "fst (deploymentResource_Update client req resp0) = []"
        by (simp add: deploymentResource_Update_cases Let_def)
      with h show ?thesis by simp
    next
      case e2: False
      from e1 e2 have "fst (deploymentResource_Update client req resp0) =
          [CallUpdateDeployment (ValueString (dr_ID (Get_model req)))
               (updateRequest_of (Get_model req)
                  \<lparr>fl_SingleFlags = snd (flag_step (dr_SingleFlags (Get_model req)) []),
                   fl_SelectFlags = snd (flag_step (dr_SelectFlags (Get_model req)) []),
                   fl_StorageFlags = snd (flag_step (dr_StorageFlags (Get_model req)) []),
                   fl_InsertFlags = snd (flag_step (dr_InsertFlags (Get_model req)) [])\<rparr>)]"
        by (simp add: deploymentResource_Update_cases Let_def del: append_Cons split: sum.splits)
      with h have "UpdateDeployment client (ValueString (dr_ID (Get_model req)))
               (updateRequest_of (Get_model req)
                  \<lparr>fl_SingleFlags = snd (flag_step (dr_SingleFlags (Get_model req)) []),
                   fl_SelectFlags = snd (flag_step (dr_SelectFlags (Get_model req)) []),
                   fl_StorageFlags = snd (flag_step (dr_StorageFlags (Get_model req)) []),
                   fl_InsertFlags = snd (flag_step (dr_InsertFlags (Get_model req)) [])\<rparr>) = Inr d"
        by simp
      with e1 e2 show ?thesis
        by (simp add: deploymentResource_Update_cases Let_def del: append_Cons)
    qed
  qed
qed

text \<open>
  Claim C7. The calls a deployment \<open>Update\<close> makes do not depend on the plan's
  \<open>type\<close>, \<open>cloud_provider\<close> and \<open>region\<close>. Every call it makes is \<open>UpdateDeployment\<close>
  with the plan's \<open>id\<close> and the request built from the plan's name, tier, storage
  size and unit, retention and unit, deduplication and unit, maintenance window and
  the four converted flag lists, each field of the request holding the plan's value
  (integers converted to the request's unsigned types). When that call succeeds, the stored state is the plan
  with only \<open>version\<close>, \<open>status\<close> and \<open>access_endpoint\<close> replaced by the values of the
  API's answer, so \<open>type\<close>, \<open>cloud_provider\<close>, \<open>region\<close> and \<open>created_at\<close> keep their
  planned values.
\<close>

theorem deployment_Update_frame:
  "fst (deploymentResource_Update client
          (req\<lparr>Get_model := (Get_model req)\<lparr>dr_Type := t, dr_CloudProvider := c, dr_Region := r\<rparr>\<rparr>) resp)
     = fst (deploymentResource_Update client req resp) \<and>
   (\<forall>call \<in> set (fst (deploymentResource_Update client req resp)).
      call = CallUpdateDeployment (ValueString (dr_ID (Get_model req)))
               (updateRequest_of (Get_model req)
                  \<lparr>fl_SingleFlags = snd (flag_step (dr_SingleFlags (Get_model req)) []),
                   fl_SelectFlags = snd (flag_step (dr_SelectFlags (Get_model req)) []),
                   fl_StorageFlags = snd (flag_step (dr_StorageFlags (Get_model req)) []),
                   fl_InsertFlags = snd (flag_step (dr_InsertFlags (Get_model req)) [])\<rparr>)) \<and>
   (fst (deploymentResource_Update client req resp) = [CallUpdateDeployment i rq] \<and>
    UpdateDeployment client i rq = Inr d \<longrightarrow>
      State (snd (deploymentResource_Update client req resp)) =
        Some ((Get_model req)\<lparr>dr_Version := StringValue (dp_Version d),
                               dr_Status := StringValue (dp_Status d),
                               dr_AccessEndpoint := StringValue (dp_AccessEndpoint d)\<rparr>)) \<and>
   updateRequest_of plan flags =
       \<lparr>ur_Name = ValueString (dr_Name plan),
        ur_Tier = ucast (ValueInt64 (dr_Tier plan)),
        ur_StorageSize = ValueInt64 (dr_StorageSize plan),
        ur_StorageSizeUnit = ValueString (dr_StorageSizeUnit plan),
        ur_Retention = ucast (ValueInt64 (dr_Retention plan)),
        ur_RetentionUnit = ValueString (dr_RetentionUnit plan),
        ur_Deduplication = ucast (ValueInt64 (dr_Deduplication plan)),
        ur_DeduplicationUnit = ValueString (dr_DeduplicationUnit plan),
        ur_MaintenanceWindow = ValueString (dr_MaintenanceWindow plan),
        ur_Flags = flags\<rparr>"
proof -
  have a: "fst (deploymentResource_Update client
          (req\<lparr>Get_model := (Get_model req)\<lparr>dr_Type := t, dr_CloudProvider := c, dr_Region := r\<rparr>\<rparr>) resp)
     = fst (deploymentResource_Update client req resp)"
    unfolding deploymentResource_Update_cases Let_def
    by (simp add: updateRequest_of_frame del: append_Cons split: sum.splits)
  have b: "\<forall>call \<in> set (fst (deploymentResource_Update client req resp)).
      call = CallUpdateDeployment (ValueString (dr_ID (Get_model req)))
               (updateRequest_of (Get_model req)
                  \<lparr>fl_SingleFlags = snd (flag_step (dr_SingleFlags (Get_model req)) []),
                   fl_SelectFlags = snd (flag_step (dr_SelectFlags (Get_model req)) []),
                   fl_StorageFlags = snd (flag_step (dr_StorageFlags (Get_model req)) []),
                   fl_InsertFlags = snd (flag_step (dr_InsertFlags (Get_model req)) [])\<rparr>)"
    unfolding deploymentResource_Update_cases Let_def
    by (simp del: append_Cons split: sum.splits)
  note c = deploymentResource_Update_success [of client req resp i rq d]
  have e: "updateRequest_of plan flags =
       \<lparr>ur_Name = ValueString (dr_Name plan),
        ur_Tier = ucast (ValueInt64 (dr_Tier plan)),
        ur_StorageSize = ValueInt64 (dr_StorageSize plan),
        ur_StorageSizeUnit = ValueString (dr_StorageSizeUnit plan),
        ur_Retention = ucast (ValueInt64 (dr_Retention plan)),
        ur_RetentionUnit = ValueString (dr_RetentionUnit plan),
        ur_Deduplication = ucast (ValueInt64 (dr_Deduplication plan)),
        ur_DeduplicationUnit = ValueString (dr_DeduplicationUnit plan),
        ur_MaintenanceWindow = ValueString (dr_MaintenanceWindow plan),
        ur_Flags = flags\<rparr>"
    by (simp add: updateRequest_of_def)
  from a b c e show ?thesis by blast
qed

theorem deployment_Update_frame_witness:
  "fst (deploymentResource_Update demo_client \<lparr>Get_diags = [], Get_model = demo_plan\<rparr>
          \<lparr>Diagnostics = [], State = Some demo_plan\<rparr>) =
     [CallUpdateDeployment []
        \<lparr>ur_Name = ''Single demo'', ur_Tier = 21, ur_StorageSize = 20, ur_StorageSizeUnit = ''GB'',
         ur_Retention = 30, ur_RetentionUnit = ''d'', ur_Deduplication = 30,
         ur_DeduplicationUnit = ''s'', ur_MaintenanceWindow = ''Sat-Sun 3-4am'',
         ur_Flags = \<lparr>fl_SingleFlags = [''-search.maxQueryDuration=360s''], fl_SelectFlags = [],
                     fl_StorageFlags = [], fl_InsertFlags = []\<rparr>\<rparr>] \<and>
   UpdateDeployment demo_client []
        \<lparr>ur_Name = ''Single demo'', ur_Tier = 21, ur_StorageSize = 20, ur_StorageSizeUnit = ''GB'',
         ur_Retention = 30, ur_RetentionUnit = ''d'', ur_Deduplication = 30,
         ur_DeduplicationUnit = ''s'', ur_MaintenanceWindow = ''Sat-Sun 3-4am'',
         ur_Flags = \<lparr>fl_SingleFlags = [''-search.maxQueryDuration=360s''], fl_SelectFlags = [],
                     fl_StorageFlags = [], fl_InsertFlags = []\<rparr>\<rparr> = Inr demo_deployment \<and>
   State (snd (deploymentResource_Update demo_client \<lparr>Get_diags = [], Get_model = demo_plan\<rparr>
                 \<lparr>Diagnostics = [], State = Some demo_plan\<rparr>)) =
     Some (demo_plan\<lparr>dr_Version := StringValue ''v1.0'', dr_Status := StringValue ''RUNNING'',
                      dr_AccessEndpoint := StringValue ''https://d-1''\<rparr>)"
proof -
  let ?req = "\<lparr>Get_diags = [], Get_model = demo_plan\<rparr>"
  let ?resp = "\<lparr>Diagnostics = [], State = Some demo_plan\<rparr>"
  let ?rq = "\<lparr>ur_Name = ''Single demo'', ur_Tier = 21, ur_StorageSize = 20, ur_StorageSizeUnit = ''GB'',
         ur_Retention = 30, ur_RetentionUnit = ''d'', ur_Deduplication = 30,
         ur_DeduplicationUnit = ''s'', ur_MaintenanceWindow = ''Sat-Sun 3-4am'',
         ur_Flags = \<lparr>fl_SingleFlags = [''-search.maxQueryDuration=360s''], fl_SelectFlags = [],
                     fl_StorageFlags = [], fl_InsertFlags = []\<rparr>\<rparr>"
  have calls: "fst (deploymentResource_Update demo_client ?req ?resp) = [CallUpdateDeployment [] ?rq]"
    unfolding deploymentResource_Update_cases Let_def
    by (simp add: demo_plan_def demo_client_def Append_def HasError_def flag_step_def
          updateRequest_of_def)
  have api: "UpdateDeployment demo_client [] ?rq = Inr demo_deployment"
    by (simp add: demo_client_def)
  from deployment_Update_frame [where client = demo_client and req = "?req" and resp = "?resp"
         and i = "[]" and rq = "?rq" and d = demo_deployment] calls api
  have "State (snd (deploymentResource_Update demo_client ?req ?resp)) =
     Some ((Get_model ?req)\<lparr>dr_Version := StringValue (dp_Version demo_deployment),
                      dr_Status := StringValue (dp_Status demo_deployment),
                      dr_AccessEndpoint := StringValue (dp_AccessEndpoint demo_deployment)\<rparr>)"
    by blast
  with calls api show ?thesis by (simp add: demo_deployment_def)
qed

section \<open>Catalog data sources\<close>

lemma sint_ucast32: "sint (ucast (w :: 32 word) :: 64 word) = uint w"
proof -
  have "uint w < 2 ^ 32" using uint_bounded [of w] by simp
  then have "uint (ucast w :: 64 word) < 2 ^ 63"
    by (simp add: uint_up_ucast is_up)
  then have "sint (ucast w :: 64 word) = uint (ucast w :: 64 word)"
    by (rule sint_small)
  then show ?thesis by (simp add: uint_up_ucast is_up)
qed

lemma append_slice_Some: "append_slice s x = Some (elems s @ [x])"
  by (cases s) simp_all

lemma foldl_append_slice:
  "foldl (\<lambda>s x. append_slice s (f x)) s0 xs =
     (if xs = [] then s0 else Some (elems s0 @ map f xs))"
proof (induction xs arbitrary: s0)
  case Nil
  show ?case by simp
next
  case (Cons x xs)
  show ?case by (cases s0) (simp_all add: Cons.IH)
qed

lemma foldl_cps:
  "foldl (\<lambda>state provider. state\<lparr>cps_CloudProviders :=
             append_slice (cps_CloudProviders state) (providerState_of provider)\<rparr>) st xs =
   st\<lparr>cps_CloudProviders := foldl (\<lambda>s x. append_slice s (providerState_of x)) (cps_CloudProviders st) xs\<rparr>"
  by (induction xs arbitrary: st) simp_all

lemma foldl_rgs:
  "foldl (\<lambda>state region. state\<lparr>rgs_Regions :=
             append_slice (rgs_Regions state) (regionState_of region)\<rparr>) st xs =
   st\<lparr>rgs_Regions := foldl (\<lambda>s x. append_slice s (regionState_of x)) (rgs_Regions st) xs\<rparr>"
  by (induction xs arbitrary: st) simp_all

lemma foldl_trs:
  "foldl (\<lambda>state tier. state\<lparr>trs_Tiers :=
             append_slice (trs_Tiers state) (tierState_of tier)\<rparr>) st xs =
   st\<lparr>trs_Tiers := foldl (\<lambda>s x. append_slice s (tierState_of x)) (trs_Tiers st) xs\<rparr>"
  by (induction xs arbitrary: st) simp_all

lemma foldl_dss:
  "foldl (\<lambda>state deployment. state\<lparr>dss_Deployments :=
             append_slice (dss_Deployments state) (deploymentState_of deployment)\<rparr>) st xs =
   st\<lparr>dss_Deployments := foldl (\<lambda>s x. append_slice s (deploymentState_of x)) (dss_Deployments st) xs\<rparr>"
  by (induction xs arbitrary: st) simp_all

text \<open>
  Claim C8. A \<open>Read\<close> of the cloud-providers, regions or tiers data source makes
  exactly one call, the corresponding List method, whatever the API answers, so it
  never calls a mutating method. When the List call succeeds, the diagnostics are
  unchanged and the stored list has one element per entry of the API's answer, in the
  same order, and each element's fields hold the entry's fields: \<open>id\<close> and \<open>url\<close> of
  a cloud provider; \<open>name\<close> and \<open>cloud_provider\<close> of a region; and of a tier \<open>id\<close>,
  \<open>type\<close>, \<open>cloud_provider\<close>, \<open>name\<close>, \<open>compute_cost_per_hour\<close>, \<open>ingestion_rate\<close>,
  \<open>active_time_series\<close>, \<open>new_series_over_24h\<close>, \<open>datapoints_read_rate\<close>,
  \<open>series_read_per_query\<close> and \<open>access_token_concurrent_requests\<close>. The tier's
  \<open>id\<close>, a 32-bit unsigned number widened to \<open>int64\<close>, keeps its numeric value. The
  slice stays \<open>nil\<close> when the answer is empty.
\<close>

theorem catalog_Read_pass_through:
  "(ListCloudProviders client = Inr providers \<longrightarrow>
      cloudProvidersDataSource_Read client presp =
        ([CallListCloudProviders],
         presp\<lparr>State := Some \<lparr>cps_CloudProviders =
            (if providers = [] then None
             else Some (map (\<lambda>p. \<lparr>cpm_ID = StringValue (cp_ID p), cpm_URL = StringValue (cp_URL p)\<rparr>)
                    providers))\<rparr>\<rparr>) \<and>
      elems (cps_CloudProviders (the (State (snd (cloudProvidersDataSource_Read client presp)))))
        = map (\<lambda>p. \<lparr>cpm_ID = StringValue (cp_ID p), cpm_URL = StringValue (cp_URL p)\<rparr>)
            providers \<and>
      length (elems (cps_CloudProviders (the (State (snd (cloudProvidersDataSource_Read client presp)))))) = length providers) \<and>
   (ListRegions client = Inr regions \<longrightarrow>
      regionsDataSource_Read client rresp =
        ([CallListRegions],
         rresp\<lparr>State := Some \<lparr>rgs_Regions =
            (if regions = [] then None
             else Some (map (\<lambda>g. \<lparr>rgm_Name = StringValue (rg_Name g),
                         rgm_CloudProvider = StringValue (rg_CloudProvider g)\<rparr>)
                    regions))\<rparr>\<rparr>) \<and>
      elems (rgs_Regions (the (State (snd (regionsDataSource_Read client rresp)))))
        = map (\<lambda>g. \<lparr>rgm_Name = StringValue (rg_Name g),
                         rgm_CloudProvider = StringValue (rg_CloudProvider g)\<rparr>)
            regions \<and>
      length (elems (rgs_Regions (the (State (snd (regionsDataSource_Read client rresp)))))) = length regions) \<and>
   (ListTiers client = Inr tiers \<longrightarrow>
      tiersDataSource_Read client tresp =
        ([CallListTiers],
         tresp\<lparr>State := Some \<lparr>trs_Tiers =
            (if tiers = [] then None
             else Some (map (\<lambda>t. \<lparr>trm_ID = Int64Value (ucast (tr_ID t)),
                         trm_Type = StringValue (tr_Type t),
                         trm_CloudProvider = StringValue (tr_CloudProvider t),
                         trm_Name = StringValue (tr_Name t),
                         trm_ComputeCostPerHour = Float64Value (tr_ComputeCostPerHour t),
                         trm_IngestionRate = Int64Value (tr_IngestionRate t),
                         trm_ActiveTimeSeries = Int64Value (tr_ActiveTimeSeries t),
                         trm_NewSeriesOver24h = Int64Value (tr_NewSeriesOver24h t),
                         trm_DatapointsReadRate = Int64Value (tr_DatapointsReadRate t),
                         trm_SeriesReadPerQuery = Int64Value (tr_SeriesReadPerQuery t),
                         trm_AccessTokenConcurrentRequests =
                           Int64Value (tr_AccessTokenConcurrentRequests t)\<rparr>)
                    tiers))\<rparr>\<rparr>) \<and>
      elems (trs_Tiers (the (State (snd (tiersDataSource_Read client tresp)))))
        = map (\<lambda>t. \<lparr>trm_ID = Int64Value (ucast (tr_ID t)),
                         trm_Type = StringValue (tr_Type t),
                         trm_CloudProvider = StringValue (tr_CloudProvider t),
                         trm_Name = StringValue (tr_Name t),
                         trm_ComputeCostPerHour = Float64Value (tr_ComputeCostPerHour t),
                         trm_IngestionRate = Int64Value (tr_IngestionRate t),
                         trm_ActiveTimeSeries = Int64Value (tr_ActiveTimeSeries t),
                         trm_NewSeriesOver24h = Int64Value (tr_NewSeriesOver24h t),
                         trm_DatapointsReadRate = Int64Value (tr_DatapointsReadRate t),
                         trm_SeriesReadPerQuery = Int64Value (tr_SeriesReadPerQuery t),
                         trm_AccessTokenConcurrentRequests =
                           Int64Value (tr_AccessTokenConcurrentRequests t)\<rparr>)
            tiers \<and>
      length (elems (trs_Tiers (the (State (snd (tiersDataSource_Read client tresp)))))) = length tiers) \<and>
   fst (cloudProvidersDataSource_Read client presp) = [CallListCloudProviders] \<and>
   fst (regionsDataSource_Read client rresp) = [CallListRegions] \<and>
   fst (tiersDataSource_Read client tresp) = [CallListTiers] \<and>
   sint (ValueInt64 (trm_ID (tierState_of tier))) = uint (tr_ID tier)"
proof -
  have pe: "providerState_of = (\<lambda>p. \<lparr>cpm_ID = StringValue (cp_ID p), cpm_URL = StringValue (cp_URL p)\<rparr>)"
    by (simp add: fun_eq_iff providerState_of_def)
  have re: "regionState_of = (\<lambda>g. \<lparr>rgm_Name = StringValue (rg_Name g),
                         rgm_CloudProvider = StringValue (rg_CloudProvider g)\<rparr>)"
    by (simp add: fun_eq_iff regionState_of_def)
  have te: "tierState_of = (\<lambda>t. \<lparr>trm_ID = Int64Value (ucast (tr_ID t)),
                         trm_Type = StringValue (tr_Type t),
                         trm_CloudProvider = StringValue (tr_CloudProvider t),
                         trm_Name = StringValue (tr_Name t),
                         trm_ComputeCostPerHour = Float64Value (tr_ComputeCostPerHour t),
                         trm_IngestionRate = Int64Value (tr_IngestionRate t),
                         trm_ActiveTimeSeries = Int64Value (tr_ActiveTimeSeries t),
                         trm_NewSeriesOver24h = Int64Value (tr_NewSeriesOver24h t),
                         trm_DatapointsReadRate = Int64Value (tr_DatapointsReadRate t),
                         trm_SeriesReadPerQuery = Int64Value (tr_SeriesReadPerQuery t),
                         trm_AccessTokenConcurrentRequests =
                           Int64Value (tr_AccessTokenConcurrentRequests t)\<rparr>)"
    by (simp add: fun_eq_iff tierState_of_def)
  have p0: "cloudProvidersDataSource_Read client presp =
        ([CallListCloudProviders],
         presp\<lparr>State := Some \<lparr>cps_CloudProviders =
            (if providers = [] then None else Some (map providerState_of providers))\<rparr>\<rparr>)"
    if "ListCloudProviders client = Inr providers"
    using that
    by (simp add: cloudProvidersDataSource_Read_def State_Set_def foldl_cps foldl_append_slice)
  note p = p0 [unfolded pe]
  have r0: "regionsDataSource_Read client rresp =
        ([CallListRegions],
         rresp\<lparr>State := Some \<lparr>rgs_Regions =
            (if regions = [] then None else Some (map regionState_of regions))\<rparr>\<rparr>)"
    if "ListRegions client = Inr regions"
    using that
    by (simp add: regionsDataSource_Read_def State_Set_def foldl_rgs foldl_append_slice)
  note r = r0 [unfolded re]
  have t0: "tiersDataSource_Read client tresp =
        ([CallListTiers],
         tresp\<lparr>State := Some \<lparr>trs_Tiers =
            (if tiers = [] then None else Some (map tierState_of tiers))\<rparr>\<rparr>)"
    if "ListTiers client = Inr tiers"
    using that
    by (simp add: tiersDataSource_Read_def State_Set_def foldl_trs foldl_append_slice)
  note t = t0 [unfolded te]
  have c1: "fst (cloudProvidersDataSource_Read client presp) = [CallListCloudProviders]"
    by (simp add: cloudProvidersDataSource_Read_def Let_def split: sum.splits)
  have c2: "fst (regionsDataSource_Read client rresp) = [CallListRegions]"
    by (simp add: regionsDataSource_Read_def Let_def split: sum.splits)
  have c3: "fst (tiersDataSource_Read client tresp) = [CallListTiers]"
    by (simp add: tiersDataSource_Read_def Let_def split: sum.splits)
  have n: "sint (ValueInt64 (trm_ID (tierState_of tier))) = uint (tr_ID tier)"
    by (simp add: tierState_of_def sint_ucast32)
  from p r t c1 c2 c3 n show ?thesis by simp
qed

theorem catalog_Read_pass_through_witness:
  "ListRegions demo_client = Inr [\<lparr>rg_Name = ''eu-west-1'', rg_CloudProvider = ''aws''\<rparr>,
                                 \<lparr>rg_Name = ''us-east-2'', rg_CloudProvider = ''aws''\<rparr>] \<and>
   regionsDataSource_Read demo_client \<lparr>Diagnostics = [], State = None\<rparr> =
     ([CallListRegions],
      \<lparr>Diagnostics = [],
       State = Some \<lparr>rgs_Regions = Some
                 [\<lparr>rgm_Name = StringValue ''eu-west-1'', rgm_CloudProvider = StringValue ''aws''\<rparr>,
                  \<lparr>rgm_Name = StringValue ''us-east-2'', rgm_CloudProvider = StringValue ''aws''\<rparr>]\<rparr>\<rparr>) \<and>
   ListTiers demo_client = Inr [demo_tier] \<and>
   elems (trs_Tiers (the (State (snd (tiersDataSource_Read demo_client \<lparr>Diagnostics = [], State = None\<rparr>)))))
     = [\<lparr>trm_ID = Int64Value 21, trm_Type = StringValue ''single_node'',
         trm_CloudProvider = StringValue ''aws'', trm_Name = StringValue ''s.starter'',
         trm_ComputeCostPerHour = Float64Value 0, trm_IngestionRate = Int64Value 1000,
         trm_ActiveTimeSeries = Int64Value 2000, trm_NewSeriesOver24h = Int64Value 3000,
         trm_DatapointsReadRate = Int64Value 4000, trm_SeriesReadPerQuery = Int64Value 5000,
         trm_AccessTokenConcurrentRequests = Int64Value 6\<rparr>] \<and>
   ListCloudProviders demo_client = Inr [\<lparr>cp_ID = ''aws'', cp_URL = ''https://aws.amazon.com''\<rparr>] \<and>
   elems (cps_CloudProviders (the (State (snd
      (cloudProvidersDataSource_Read demo_client \<lparr>Diagnostics = [], State = None\<rparr>)))))
     = [\<lparr>cpm_ID = StringValue ''aws'', cpm_URL = StringValue ''https://aws.amazon.com''\<rparr>]"
proof -
  let ?resp = "\<lparr>Diagnostics = [], State = None\<rparr>"
  have l1: "ListRegions demo_client = Inr [\<lparr>rg_Name = ''eu-west-1'', rg_CloudProvider = ''aws''\<rparr>,
                                 \<lparr>rg_Name = ''us-east-2'', rg_CloudProvider = ''aws''\<rparr>]"
    by (simp add: demo_client_def)
  have l2: "ListTiers demo_client = Inr [demo_tier]" by (simp add: demo_client_def)
  have l3: "ListCloudProviders demo_client = Inr [\<lparr>cp_ID = ''aws'', cp_URL = ''https://aws.amazon.com''\<rparr>]"
    by (simp add: demo_client_def)
  note t = catalog_Read_pass_through [where client = demo_client and presp = "?resp" and rresp = "?resp"
             and tresp = "?resp" and tiers = "[demo_tier]"
             and providers = "[\<lparr>cp_ID = ''aws'', cp_URL = ''https://aws.amazon.com''\<rparr>]"
             and regions = "[\<lparr>rg_Name = ''eu-west-1'', rg_CloudProvider = ''aws''\<rparr>,
                             \<lparr>rg_Name = ''us-east-2'', rg_CloudProvider = ''aws''\<rparr>]"]
  from t l1 l2 l3 show ?thesis
    by (simp add: demo_tier_def)
qed

section \<open>Single-call atomicity\<close>

text \<open>
  Claim C5. Every outcome of Create, Read, Update and Delete of the deployment, the
  access token and the rule file, and of Read of each of the five data sources, is
  single-call atomic: the operation calls at most one client method; when the client
  answers that call with an error the operation adds an error diagnostic and leaves
  the response state as it was given; and the response state changes only when one
  call was made and answered without error.
\<close>

theorem single_call_atomicity:
  "single_call_atomic client dresp (deploymentResource_Create client dreq dresp) \<and>
   single_call_atomic client dresp (deploymentResource_Read client dreq dresp) \<and>
   single_call_atomic client dresp (deploymentResource_Update client dreq dresp) \<and>
   single_call_atomic client dresp (deploymentResource_Delete client dreq dresp) \<and>
   single_call_atomic client tresp (accessTokenResource_Create client treq tresp) \<and>
   single_call_atomic client tresp (accessTokenResource_Read client treq tresp) \<and>
   single_call_atomic client tresp (accessTokenResource_Update client treq tresp) \<and>
   single_call_atomic client tresp (accessTokenResource_Delete client treq tresp) \<and>
   single_call_atomic client rresp (ruleFileResource_Create client rreq rresp) \<and>
   single_call_atomic client rresp (ruleFileResource_Read client rreq rresp) \<and>
   single_call_atomic client rresp (ruleFileResource_Update client rreq rresp) \<and>
   single_call_atomic client rresp (ruleFileResource_Delete client rreq rresp) \<and>
   single_call_atomic client cpresp (cloudProvidersDataSource_Read client cpresp) \<and>
   single_call_atomic client rgresp (regionsDataSource_Read client rgresp) \<and>
   single_call_atomic client tiresp (tiersDataSource_Read client tiresp) \<and>
   single_call_atomic client dsresp (deploymentsDataSource_Read client dsresp) \<and>
   single_call_atomic client ddresp (deploymentDataSource_Read client ddreq ddresp)"
proof -
  have a1: "single_call_atomic client dresp (deploymentResource_Create client dreq dresp)"
    unfolding deploymentResource_Create_def
    by (simp add: single_call_atomic_def outcome_simps del: append_Cons split: sum.splits)
  have a2: "single_call_atomic client dresp (deploymentResource_Read client dreq dresp)"
    unfolding deploymentResource_Read_def
    by (simp add: single_call_atomic_def outcome_simps del: append_Cons split: sum.splits)
  have a3: "single_call_atomic client dresp (deploymentResource_Update client dreq dresp)"
    unfolding deploymentResource_Update_cases
    by (simp add: single_call_atomic_def outcome_simps del: append_Cons split: sum.splits)
  have a4: "single_call_atomic client dresp (deploymentResource_Delete client dreq dresp)"
    unfolding deploymentResource_Delete_def
    by (simp add: single_call_atomic_def outcome_simps del: append_Cons split: option.splits)
  have a5: "single_call_atomic client tresp (accessTokenResource_Create client treq tresp)"
    unfolding accessTokenResource_Create_def
    by (simp add: single_call_atomic_def outcome_simps del: append_Cons split: sum.splits)
  have a6: "single_call_atomic client tresp (accessTokenResource_Read client treq tresp)"
    unfolding accessTokenResource_Read_def
    by (simp add: single_call_atomic_def outcome_simps del: append_Cons split: sum.splits)
  have a7: "single_call_atomic client tresp (accessTokenResource_Update client treq tresp)"
    unfolding accessTokenResource_Update_def
    by (simp add: single_call_atomic_def outcome_simps del: append_Cons split: sum.splits)
  have a8: "single_call_atomic client tresp (accessTokenResource_Delete client treq tresp)"
    unfolding accessTokenResource_Delete_def
    by (simp add: single_call_atomic_def outcome_simps del: append_Cons split: option.splits)
  have a9: "single_call_atomic client rresp (ruleFileResource_Create client rreq rresp)"
    unfolding ruleFileResource_Create_def
    by (simp add: single_call_atomic_def outcome_simps del: append_Cons split: option.splits)
  have a10: "single_call_atomic client rresp (ruleFileResource_Read client rreq rresp)"
    unfolding ruleFileResource_Read_def
    by (simp add: single_call_atomic_def outcome_simps del: append_Cons split: sum.splits)
  have a11: "single_call_atomic client rresp (ruleFileResource_Update client rreq rresp)"
    unfolding ruleFileResource_Update_def
    by (simp add: single_call_atomic_def outcome_simps del: append_Cons split: option.splits)
  have a12: "single_call_atomic client rresp (ruleFileResource_Delete client rreq rresp)"
    unfolding ruleFileResource_Delete_def
    by (simp add: single_call_atomic_def outcome_simps del: append_Cons split: option.splits)
  have a13: "single_call_atomic client cpresp (cloudProvidersDataSource_Read client cpresp)"
    unfolding cloudProvidersDataSource_Read_def
    by (simp add: single_call_atomic_def outcome_simps del: append_Cons split: sum.splits)
  have a14: "single_call_atomic client rgresp (regionsDataSource_Read client rgresp)"
    unfolding regionsDataSource_Read_def
    by (simp add: single_call_atomic_def outcome_simps del: append_Cons split: sum.splits)
  have a15: "single_call_atomic client tiresp (tiersDataSource_Read client tiresp)"
    unfolding tiersDataSource_Read_def
    by (simp add: single_call_atomic_def outcome_simps del: append_Cons split: sum.splits)
  have a16: "single_call_atomic client dsresp (deploymentsDataSource_Read client dsresp)"
    unfolding deploymentsDataSource_Read_def
    by (simp add: single_call_atomic_def outcome_simps del: append_Cons split: sum.splits)
  have a17: "single_call_atomic client ddresp (deploymentDataSource_Read client ddreq ddresp)"
    unfolding deploymentDataSource_Read_def
    by (simp add: single_call_atomic_def outcome_simps del: append_Cons split: sum.splits)
  from a1 a2 a3 a4 a5 a6 a7 a8 a9 a10 a11 a12 a13 a14 a15 a16 a17
  show ?thesis by (intro conjI)
qed

theorem single_call_atomicity_witness:
  "fst (ruleFileResource_Create down_client \<lparr>Get_diags = [], Get_model = demo_rule_plan\<rparr>
          \<lparr>Diagnostics = [], State = None\<rparr>) =
     [CallCreateDeploymentRuleFileContent ''d-1'' ''recording_rules.yaml'' ''groups: []''] \<and>
   call_failed down_client
     (CallCreateDeploymentRuleFileContent ''d-1'' ''recording_rules.yaml'' ''groups: []'') \<and>
   HasError (added \<lparr>Diagnostics = [], State = None\<rparr>
              (snd (ruleFileResource_Create down_client \<lparr>Get_diags = [], Get_model = demo_rule_plan\<rparr>
                      \<lparr>Diagnostics = [], State = None\<rparr>))) \<and>
   State (snd (ruleFileResource_Create down_client \<lparr>Get_diags = [], Get_model = demo_rule_plan\<rparr>
                 \<lparr>Diagnostics = [], State = None\<rparr>)) = None \<and>
   State (snd (ruleFileResource_Create demo_client \<lparr>Get_diags = [], Get_model = demo_rule_plan\<rparr>
                 \<lparr>Diagnostics = [], State = None\<rparr>)) \<noteq> None \<and>
   (case fst (ruleFileResource_Create demo_client \<lparr>Get_diags = [], Get_model = demo_rule_plan\<rparr>
                \<lparr>Diagnostics = [], State = None\<rparr>) of
      [c] \<Rightarrow> \<not> call_failed demo_client c | _ \<Rightarrow> False)"
proof -
  let ?req = "\<lparr>Get_diags = [], Get_model = demo_rule_plan\<rparr>"
  let ?resp = "\<lparr>Diagnostics = [], State = None\<rparr> :: ruleFileResourceModel response"
  let ?call = "CallCreateDeploymentRuleFileContent ''d-1'' ''recording_rules.yaml'' ''groups: []''"
  have calls: "fst (ruleFileResource_Create down_client ?req ?resp) = [?call]"
    by (simp add: ruleFileResource_Create_def demo_rule_plan_def down_client_def outcome_simps)
  have failed: "call_failed down_client ?call"
    by (simp add: down_client_def)
  have changed: "State (snd (ruleFileResource_Create demo_client ?req ?resp)) \<noteq> State ?resp"
    by (simp add: ruleFileResource_Create_def demo_rule_plan_def demo_client_def outcome_simps)
  from single_call_atomicity [where client = down_client and rreq = "?req" and rresp = "?resp"]
  have "single_call_atomic down_client ?resp (ruleFileResource_Create down_client ?req ?resp)"
    by blast
  with calls failed
  have down: "HasError (added ?resp (snd (ruleFileResource_Create down_client ?req ?resp))) \<and>
              State (snd (ruleFileResource_Create down_client ?req ?resp)) = State ?resp"
    by (simp add: single_call_atomic_def)
  from single_call_atomicity [where client = demo_client and rreq = "?req" and rresp = "?resp"]
  have "single_call_atomic demo_client ?resp (ruleFileResource_Create demo_client ?req ?resp)"
    by blast
  with changed
  have up: "(case fst (ruleFileResource_Create demo_client ?req ?resp) of
               [c] \<Rightarrow> \<not> call_failed demo_client c | _ \<Rightarrow> False)"
    unfolding single_call_atomic_def by blast
  from calls failed down changed up show ?thesis by simp
qed

section \<open>Where error diagnostics come from\<close>

text \<open>
  Claim C6, as amended. For Create, Read, Update and Delete of the deployment and of
  the rule file, Create, Read and Delete of the access token, and Read of every data
  source: if the operation adds an error diagnostic, then the framework's decoding of
  the plan, state or configuration (for the deployment update also the conversion of
  the four flag lists) reported an error, or the client answered the operation's call
  with an error. The claim as stated, for every operation, fails: \<open>ImportState\<close> of
  the access token and of the rule file rejects an import ID that does not split into
  two non-empty parts, the access-token \<open>Update\<close> always reports an error, and the
  provider's \<open>Configure\<close> rejects an empty API key, each without any API call or
  decoding error.
\<close>

theorem errors_from_decoding_or_api:
  "errors_only_from client
       (Get_diags dreq)
       dresp (deploymentResource_Create client dreq dresp) \<and>
   errors_only_from client
       (Get_diags dreq)
       dresp (deploymentResource_Read client dreq dresp) \<and>
   errors_only_from client
       (Get_diags dreq @ fst (flag_step (dr_SingleFlags (Get_model dreq)) []) @
        fst (flag_step (dr_SelectFlags (Get_model dreq)) []) @
        fst (flag_step (dr_StorageFlags (Get_model dreq)) []) @
        fst (flag_step (dr_InsertFlags (Get_model dreq)) []))
       dresp (deploymentResource_Update client dreq dresp) \<and>
   errors_only_from client
       (Get_diags dreq)
       dresp (deploymentResource_Delete client dreq dresp) \<and>
   errors_only_from client
       (Get_diags treq)
       tresp (accessTokenResource_Create client treq tresp) \<and>
   errors_only_from client
       (Get_diags treq)
       tresp (accessTokenResource_Read client treq tresp) \<and>
   errors_only_from client
       (Get_diags treq)
       tresp (accessTokenResource_Delete client treq tresp) \<and>
   errors_only_from client
       (Get_diags rreq)
       rresp (ruleFileResource_Create client rreq rresp) \<and>
   errors_only_from client
       (Get_diags rreq)
       rresp (ruleFileResource_Read client rreq rresp) \<and>
   errors_only_from client
       (Get_diags rreq)
       rresp (ruleFileResource_Update client rreq rresp) \<and>
   errors_only_from client
       (Get_diags rreq)
       rresp (ruleFileResource_Delete client rreq rresp) \<and>
   errors_only_from client
       ([])
       cpresp (cloudProvidersDataSource_Read client cpresp) \<and>
   errors_only_from client
       ([])
       rgresp (regionsDataSource_Read client rgresp) \<and>
   errors_only_from client
       ([])
       tiresp (tiersDataSource_Read client tiresp) \<and>
   errors_only_from client
       ([])
       dsresp (deploymentsDataSource_Read client dsresp) \<and>
   errors_only_from client
       (Get_diags ddreq)
       ddresp (deploymentDataSource_Read client ddreq ddresp)"
proof -
  have a1: "errors_only_from client
       (Get_diags dreq)
       dresp (deploymentResource_Create client dreq dresp)"
    unfolding deploymentResource_Create_def
    by (simp add: errors_only_from_def outcome_simps del: append_Cons split: sum.splits)
  have a2: "errors_only_from client
       (Get_diags dreq)
       dresp (deploymentResource_Read client dreq dresp)"
    unfolding deploymentResource_Read_def
    by (simp add: errors_only_from_def outcome_simps del: append_Cons split: sum.splits)
  have a3: "errors_only_from client
       (Get_diags dreq @ fst (flag_step (dr_SingleFlags (Get_model dreq)) []) @
        fst (flag_step (dr_SelectFlags (Get_model dreq)) []) @
        fst (flag_step (dr_StorageFlags (Get_model dreq)) []) @
        fst (flag_step (dr_InsertFlags (Get_model dreq)) []))
       dresp (deploymentResource_Update client dreq dresp)"
    unfolding deploymentResource_Update_cases
    by (simp add: errors_only_from_def outcome_simps del: append_Cons split: sum.splits)
  have a4: "errors_only_from client
       (Get_diags dreq)
       dresp (deploymentResource_Delete client dreq dresp)"
    unfolding deploymentResource_Delete_def
    by (simp add: errors_only_from_def outcome_simps del: append_Cons split: option.splits)
  have a5: "errors_only_from client
       (Get_diags treq)
       tresp (accessTokenResource_Create client treq tresp)"
    unfolding accessTokenResource_Create_def
    by (simp add: errors_only_from_def outcome_simps del: append_Cons split: sum.splits)
  have a6: "errors_only_from client
       (Get_diags treq)
       tresp (accessTokenResource_Read client treq tresp)"
    unfolding accessTokenResource_Read_def
    by (simp add: errors_only_from_def outcome_simps del: append_Cons split: sum.splits)
  have a7: "errors_only_from client
       (Get_diags treq)
       tresp (accessTokenResource_Delete client treq tresp)"
    unfolding accessTokenResource_Delete_def
    by (simp add: errors_only_from_def outcome_simps del: append_Cons split: option.splits)
  have a8: "errors_only_from client
       (Get_diags rreq)
       rresp (ruleFileResource_Create client rreq rresp)"
    unfolding ruleFileResource_Create_def
    by (simp add: errors_only_from_def outcome_simps del: append_Cons split: option.splits)
  have a9: "errors_only_from client
       (Get_diags rreq)
       rresp (ruleFileResource_Read client rreq rresp)"
    unfolding ruleFileResource_Read_def
    by (simp add: errors_only_from_def outcome_simps del: append_Cons split: sum.splits)
  have a10: "errors_only_from client
       (Get_diags rreq)
       rresp (ruleFileResource_Update client rreq rresp)"
    unfolding ruleFileResource_Update_def
    by (simp add: errors_only_from_def outcome_simps del: append_Cons split: option.splits)
  have a11: "errors_only_from client
       (Get_diags rreq)
       rresp (ruleFileResource_Delete client rreq rresp)"
    unfolding ruleFileResource_Delete_def
    by (simp add: errors_only_from_def outcome_simps del: append_Cons split: option.splits)
  have a12: "errors_only_from client
       ([])
       cpresp (cloudProvidersDataSource_Read client cpresp)"
    unfolding cloudProvidersDataSource_Read_def
    by (simp add: errors_only_from_def outcome_simps del: append_Cons split: sum.splits)
  have a13: "errors_only_from client
       ([])
       rgresp (regionsDataSource_Read client rgresp)"
    unfolding regionsDataSource_Read_def
    by (simp add: errors_only_from_def outcome_simps del: append_Cons split: sum.splits)
  have a14: "errors_only_from client
       ([])
       tiresp (tiersDataSource_Read client tiresp)"
    unfolding tiersDataSource_Read_def
    by (simp add: errors_only_from_def outcome_simps del: append_Cons split: sum.splits)
  have a15: "errors_only_from client
       ([])
       dsresp (deploymentsDataSource_Read client dsresp)"
    unfolding deploymentsDataSource_Read_def
    by (simp add: errors_only_from_def outcome_simps del: append_Cons split: sum.splits)
  have a16: "errors_only_from client
       (Get_diags ddreq)
       ddresp (deploymentDataSource_Read client ddreq ddresp)"
    unfolding deploymentDataSource_Read_def
    by (simp add: errors_only_from_def outcome_simps del: append_Cons split: sum.splits)
  from a1 a2 a3 a4 a5 a6 a7 a8 a9 a10 a11 a12 a13 a14 a15 a16
  show ?thesis by (intro conjI)
qed

theorem errors_from_decoding_or_api_witness:
  "HasError (added \<lparr>Diagnostics = [], State = Some demo_token_state\<rparr>
              (snd (accessTokenResource_Read down_client
                      \<lparr>Get_diags = [], Get_model = demo_token_state\<rparr>
                      \<lparr>Diagnostics = [], State = Some demo_token_state\<rparr>))) \<and>
   \<not> HasError (Get_diags \<lparr>Get_diags = [], Get_model = demo_token_state\<rparr>) \<and>
   list_ex (call_failed down_client)
     (fst (accessTokenResource_Read down_client
             \<lparr>Get_diags = [], Get_model = demo_token_state\<rparr>
             \<lparr>Diagnostics = [], State = Some demo_token_state\<rparr>))"
proof -
  let ?req = "\<lparr>Get_diags = [], Get_model = demo_token_state\<rparr>"
  let ?resp = "\<lparr>Diagnostics = [], State = Some demo_token_state\<rparr>"
  have err: "HasError (added ?resp (snd (accessTokenResource_Read down_client ?req ?resp)))"
    by (simp add: accessTokenResource_Read_def down_client_def outcome_simps added_def del: append_Cons)
  have dec: "\<not> HasError (Get_diags ?req)" by (simp add: HasError_def)
  from errors_from_decoding_or_api [where client = down_client and treq = "?req" and tresp = "?resp"]
  have "errors_only_from down_client (Get_diags ?req) ?resp
          (accessTokenResource_Read down_client ?req ?resp)"
    by blast
  with err dec
  have "list_ex (call_failed down_client) (fst (accessTokenResource_Read down_client ?req ?resp))"
    unfolding errors_only_from_def by blast
  with err dec show ?thesis by simp
qed

theorem local_checks_counterexample:
  "\<not> errors_only_from demo_client [] \<lparr>Diagnostics = [], State = None\<rparr>
       (accessTokenResource_ImportState ''no-slash'' \<lparr>Diagnostics = [], State = None\<rparr>) \<and>
   \<not> errors_only_from demo_client [] \<lparr>Diagnostics = [], State = None\<rparr>
       (ruleFileResource_ImportState ''d-1/'' \<lparr>Diagnostics = [], State = None\<rparr>) \<and>
   \<not> errors_only_from demo_client [] \<lparr>Diagnostics = [], State = Some demo_token_state\<rparr>
       (accessTokenResource_Update demo_client \<lparr>Get_diags = [], Get_model = demo_token_state\<rparr>
          \<lparr>Diagnostics = [], State = Some demo_token_state\<rparr>) \<and>
   fst (Configure (\<lambda>n. []) (\<lambda>k os. Inr demo_client)
          \<lparr>Get_diags = [], Get_model = \<lparr>pm_APIKey = StringNull, pm_BaseURL = StringNull\<rparr>\<rparr>
          \<lparr>cf_Diagnostics = [], cf_DataSourceData = None, cf_ResourceData = None\<rparr>) = [] \<and>
   HasError (cf_Diagnostics (snd (Configure (\<lambda>n. []) (\<lambda>k os. Inr demo_client)
          \<lparr>Get_diags = [], Get_model = \<lparr>pm_APIKey = StringNull, pm_BaseURL = StringNull\<rparr>\<rparr>
          \<lparr>cf_Diagnostics = [], cf_DataSourceData = None, cf_ResourceData = None\<rparr>)))"
proof -
  have a: "\<not> errors_only_from demo_client [] \<lparr>Diagnostics = [], State = None\<rparr>
       (accessTokenResource_ImportState ''no-slash'' \<lparr>Diagnostics = [], State = None\<rparr>)"
    by (simp add: errors_only_from_def accessTokenResource_ImportState_def outcome_simps added_def)
  have b: "\<not> errors_only_from demo_client [] \<lparr>Diagnostics = [], State = None\<rparr>
       (ruleFileResource_ImportState ''d-1/'' \<lparr>Diagnostics = [], State = None\<rparr>)"
    by (simp add: errors_only_from_def ruleFileResource_ImportState_def outcome_simps added_def)
  have c: "\<not> errors_only_from demo_client [] \<lparr>Diagnostics = [], State = Some demo_token_state\<rparr>
       (accessTokenResource_Update demo_client \<lparr>Get_diags = [], Get_model = demo_token_state\<rparr>
          \<lparr>Diagnostics = [], State = Some demo_token_state\<rparr>)"
    by (simp add: errors_only_from_def accessTokenResource_Update_def outcome_simps added_def del: append_Cons)
  have d: "Configure (\<lambda>n. []) (\<lambda>k os. Inr demo_client)
          \<lparr>Get_diags = [], Get_model = \<lparr>pm_APIKey = StringNull, pm_BaseURL = StringNull\<rparr>\<rparr>
          \<lparr>cf_Diagnostics = [], cf_DataSourceData = None, cf_ResourceData = None\<rparr> =
        ([], \<lparr>cf_Diagnostics = [ErrorDiagnostic ''Missing API Key Configuration''
                 (Detail (''While configuring the provider, the API key was not found in ''
                                @ ''the VMCLOUD_API_KEY environment variable or provider ''
                                @ ''configuration block api_key attribute.''))],
              cf_DataSourceData = None, cf_ResourceData = None\<rparr>)"
    unfolding Configure_def
    by (simp add: Let_def HasError_Nil del: append_Cons)
  from a b c show ?thesis unfolding d by (simp add: HasError_Cons)
qed

section \<open>What a deployment creation sends\<close>

lemma createRequest_of_flags:
  "createRequest_of (plan\<lparr>dr_SingleFlags := a, dr_SelectFlags := b, dr_StorageFlags := c,
                           dr_InsertFlags := d\<rparr>) = createRequest_of plan"
  by (simp add: createRequest_of_def)

text \<open>
  Claim C1. For the deployment of \<open>examples/resources\<close>, whose plan sets
  \<open>single_flags\<close>, \<open>Create\<close> sends a creation request with the twelve typed fields of
  the plan and no flag list, and stores the plan, flags included, as the state. For
  every plan, the call \<open>Create\<close> makes is the same whatever the four flag lists hold:
  the flag lists of the plan never reach the API on creation, while \<open>Update\<close> sends
  them.
\<close>

theorem deployment_Create_drops_flags:
  "dr_SingleFlags demo_plan = ListValue [StringValue ''-search.maxQueryDuration=360s''] \<and>
   deploymentResource_Create demo_client \<lparr>Get_diags = [], Get_model = demo_plan\<rparr>
       \<lparr>Diagnostics = [], State = None\<rparr> =
     ([CallCreateDeployment
         \<lparr>cr_Name = ''Single demo'', cr_Type = ''single_node'', cr_Provider = ''aws'',
          cr_Region = ''eu-west-1'', cr_Tier = 21, cr_StorageSize = 20, cr_StorageSizeUnit = ''GB'',
          cr_Retention = 30, cr_RetentionUnit = ''d'', cr_Deduplication = 30,
          cr_DeduplicationUnit = ''s'', cr_MaintenanceWindow = ''Sat-Sun 3-4am''\<rparr>],
      \<lparr>Diagnostics = [],
       State = Some (demo_plan\<lparr>dr_ID := StringValue ''d-1'', dr_Version := StringValue ''v1.0'',
                       dr_Status := StringValue ''RUNNING'',
                       dr_CreatedAt := StringValue ''2025-01-01T00:00:00Z'',
                       dr_AccessEndpoint := StringValue ''https://d-1''\<rparr>)\<rparr>) \<and>
   fst (deploymentResource_Create client
          (req\<lparr>Get_model := (Get_model req)\<lparr>dr_SingleFlags := a, dr_SelectFlags := b,
                                            dr_StorageFlags := c, dr_InsertFlags := d\<rparr>\<rparr>) resp)
     = fst (deploymentResource_Create client req resp)"
proof -
  have flags: "dr_SingleFlags demo_plan = ListValue [StringValue ''-search.maxQueryDuration=360s'']"
    by (simp add: demo_plan_def)
  have run: "deploymentResource_Create demo_client \<lparr>Get_diags = [], Get_model = demo_plan\<rparr>
       \<lparr>Diagnostics = [], State = None\<rparr> =
     ([CallCreateDeployment
         \<lparr>cr_Name = ''Single demo'', cr_Type = ''single_node'', cr_Provider = ''aws'',
          cr_Region = ''eu-west-1'', cr_Tier = 21, cr_StorageSize = 20, cr_StorageSizeUnit = ''GB'',
          cr_Retention = 30, cr_RetentionUnit = ''d'', cr_Deduplication = 30,
          cr_DeduplicationUnit = ''s'', cr_MaintenanceWindow = ''Sat-Sun 3-4am''\<rparr>],
      \<lparr>Diagnostics = [],
       State = Some (demo_plan\<lparr>dr_ID := StringValue ''d-1'', dr_Version := StringValue ''v1.0'',
                       dr_Status := StringValue ''RUNNING'',
                       dr_CreatedAt := StringValue ''2025-01-01T00:00:00Z'',
                       dr_AccessEndpoint := StringValue ''https://d-1''\<rparr>)\<rparr>)"
    unfolding deploymentResource_Create_def
    by (simp add: outcome_simps createRequest_of_def demo_plan_def demo_client_def
          demo_deployment_def)
  have frame: "fst (deploymentResource_Create client
          (req\<lparr>Get_model := (Get_model req)\<lparr>dr_SingleFlags := a, dr_SelectFlags := b,
                                            dr_StorageFlags := c, dr_InsertFlags := d\<rparr>\<rparr>) resp)
     = fst (deploymentResource_Create client req resp)"
    unfolding deploymentResource_Create_def
    by (simp add: outcome_simps createRequest_of_flags del: append_Cons split: sum.splits)
  from flags run frame show ?thesis by simp
qed

section \<open>Changing an access token\<close>

lemma accessToken_no_RequiresReplace:
  "RequiresReplace_attrs accessTokenResource_Schema state plan = []"
  by (simp add: RequiresReplace_attrs_def accessTokenResource_Schema_def)

text \<open>
  Claim C4. The access-token \<open>Update\<close> makes no call, leaves the state and adds the
  error "Update not supported", for every plan. But the access-token schema gives no
  attribute the \<open>RequiresReplace\<close> modifier, so no change of a token's attributes is
  planned as a replacement: for a state and a plan that differ in \<open>description\<close> the
  list of attributes that require replacement is empty, and Terraform calls \<open>Update\<close>,
  which fails. The rule-file schema, in contrast, requires replacement for a changed
  \<open>file_name\<close>.
\<close>

theorem accessToken_change_not_replaced:
  "RequiresReplace_attrs accessTokenResource_Schema state plan = [] \<and>
   accessToken_attr demo_token_state ''description''
     \<noteq> accessToken_attr (demo_token_state\<lparr>tk_Description := StringValue ''Grafana read-only token''\<rparr>)
         ''description'' \<and>
   RequiresReplace_attrs accessTokenResource_Schema (accessToken_attr demo_token_state)
     (accessToken_attr (demo_token_state\<lparr>tk_Description := StringValue ''Grafana read-only token''\<rparr>))
     = [] \<and>
   accessTokenResource_Update client req resp =
     ([], resp\<lparr>Diagnostics := Diagnostics resp @
            [ErrorDiagnostic ''Update not supported''
               (Detail ''Access tokens cannot be updated. Any changes require replacement.'')]\<rparr>) \<and>
   RequiresReplace_attrs ruleFileResource_Schema (ruleFile_attr demo_rule_plan)
     (ruleFile_attr (demo_rule_plan\<lparr>rf_FileName := StringValue ''alerting_rules.yaml''\<rparr>))
     = [''file_name'']"
proof -
  have a: "accessToken_attr demo_token_state ''description''
     \<noteq> accessToken_attr (demo_token_state\<lparr>tk_Description := StringValue ''Grafana read-only token''\<rparr>)
         ''description''"
    by (simp add: accessToken_attr_def demo_token_state_def)
  have b: "accessTokenResource_Update client req resp =
     ([], resp\<lparr>Diagnostics := Diagnostics resp @
            [ErrorDiagnostic ''Update not supported''
               (Detail ''Access tokens cannot be updated. Any changes require replacement.'')]\<rparr>)"
    by (simp add: accessTokenResource_Update_def AddError_def)
  have c: "RequiresReplace_attrs ruleFileResource_Schema (ruleFile_attr demo_rule_plan)
     (ruleFile_attr (demo_rule_plan\<lparr>rf_FileName := StringValue ''alerting_rules.yaml''\<rparr>))
     = [''file_name'']"
    by (simp add: RequiresReplace_attrs_def ruleFileResource_Schema_def
          ruleFile_attr_def demo_rule_plan_def)
  from a b c accessToken_no_RequiresReplace show ?thesis by simp
qed

end
